theory Spec2Isabelle
  imports Main "HOL-Library.Word" "HOL-Library.AList"
begin

section \<open>JavaScript strings\<close>

text \<open>
  A JavaScript string is a sequence of UTF-16 code units: \<open>length\<close>, \<open>slice\<close>,
  \<open>padEnd\<close>, \<open>split\<close> and the regular expressions of \<open>utils.ts\<close> all count and
  compare code units. A string literal of the source is written \<open>js ''...''\<close> when it is
  Basic Latin and as a list of code units otherwise.
\<close>

type_synonym jschar = "16 word"
type_synonym jsstring = "jschar list"

definition js :: "string \<Rightarrow> jsstring" where
  "js s = map (\<lambda>c. of_nat (of_char c)) s"

text \<open>\<open>String.prototype.startsWith\<close> and \<open>String.prototype.includes\<close> with a
  one-character argument.\<close>

fun startsWith :: "jsstring \<Rightarrow> jsstring \<Rightarrow> bool" where
  "startsWith s [] = True"
| "startsWith [] (p # ps) = False"
| "startsWith (c # cs) (p # ps) = (c = p \<and> startsWith cs ps)"

definition includes_char :: "jsstring \<Rightarrow> jschar \<Rightarrow> bool" where
  "includes_char s c = (c \<in> set s)"

text \<open>
  \<open>String.prototype.toLowerCase\<close> on the Basic Latin letters; every other code unit is
  kept. The model therefore covers the strings whose only cased letters are \<open>A\<close>..\<open>Z\<close>
  and \<open>a\<close>..\<open>z\<close> (course names in Chinese and in unaccented Latin script).
\<close>

definition lower_unit :: "jschar \<Rightarrow> jschar" where
  "lower_unit c = (if 0x41 \<le> c \<and> c \<le> 0x5A then c + 0x20 else c)"

definition toLowerCase :: "jsstring \<Rightarrow> jsstring" where
  "toLowerCase s = map lower_unit s"

text \<open>The white space and line terminators that \<open>String.prototype.trim\<close> removes.\<close>

definition is_js_space :: "jschar \<Rightarrow> bool" where
  "is_js_space c =
     (c = 0x09 \<or> c = 0x0A \<or> c = 0x0B \<or> c = 0x0C \<or> c = 0x0D \<or> c = 0x20 \<or> c = 0xA0
      \<or> c = 0x1680 \<or> (0x2000 \<le> c \<and> c \<le> 0x200A) \<or> c = 0x2028 \<or> c = 0x2029
      \<or> c = 0x202F \<or> c = 0x205F \<or> c = 0x3000 \<or> c = 0xFEFF)"

definition trim :: "jsstring \<Rightarrow> jsstring" where
  "trim s = rev (dropWhile is_js_space (rev (dropWhile is_js_space s)))"

text \<open>
  \<open>String.prototype.slice(start, end)\<close>: a negative index counts from the end, both
  indices are clamped to the string, and an empty range gives the empty string.
\<close>

definition slice_index :: "nat \<Rightarrow> int \<Rightarrow> nat" where
  "slice_index len i = (if i < 0 then nat (max (int len + i) 0) else min (nat i) len)"

definition slice :: "jsstring \<Rightarrow> int \<Rightarrow> int \<Rightarrow> jsstring" where
  "slice s start end =
     (let from = slice_index (length s) start; to = slice_index (length s) end
      in take (to - from) (drop from s))"

section \<open>The regular expressions of utils.ts\<close>

text \<open>
  Every regular expression of \<open>parseTitle\<close>, \<open>parseContent\<close> and
  \<open>removeSuffix\<close> is a sequence of character classes, each taken once, greedily any
  number of times (\<open>*\<close>), greedily at least once (\<open>+\<close>) or lazily any number of
  times (\<open>*?\<close>), possibly closed by the anchor \<open>$\<close>. \<open>rmatch\<close> is the backtracking
  matcher of ECMAScript on such a sequence: started at the head of the input, it returns
  the rest of the input after the first match in priority order.
\<close>

datatype quant = One | Star | Plus | LazyStar

datatype atom = Cls "jschar \<Rightarrow> bool" quant | End

function rmatch :: "atom list \<Rightarrow> jsstring \<Rightarrow> jsstring option" where
  "rmatch [] s = Some s"
| "rmatch (End # as) s = (if s = [] then rmatch as s else None)"
| "rmatch (Cls p One # as) s =
     (case s of [] \<Rightarrow> None | c # cs \<Rightarrow> if p c then rmatch as cs else None)"
| "rmatch (Cls p Plus # as) s =
     (case s of [] \<Rightarrow> None | c # cs \<Rightarrow> if p c then rmatch (Cls p Star # as) cs else None)"
| "rmatch (Cls p Star # as) s =
     (case s of
        [] \<Rightarrow> rmatch as s
      | c # cs \<Rightarrow>
          if p c
          then (case rmatch (Cls p Star # as) cs of Some r \<Rightarrow> Some r | None \<Rightarrow> rmatch as s)
          else rmatch as s)"
| "rmatch (Cls p LazyStar # as) s =
     (case rmatch as s of
        Some r \<Rightarrow> Some r
      | None \<Rightarrow>
          (case s of [] \<Rightarrow> None
           | c # cs \<Rightarrow> if p c then rmatch (Cls p LazyStar # as) cs else None))"
  by pat_completeness auto
termination
  by (relation "measure (\<lambda>(as, s). length as + length s)") auto

text \<open>
  \<open>s.replace(re, '')\<close> for a global (\<open>g\<close>) expression: scan from the left, drop each
  match and go on after it; where nothing (or only the empty string) matches, keep the
  code unit and go on at the next one.
\<close>

function remove_all :: "atom list \<Rightarrow> jsstring \<Rightarrow> jsstring" where
  "remove_all re [] = []"
| "remove_all re (c # cs) =
     (case rmatch re (c # cs) of
        None \<Rightarrow> c # remove_all re cs
      | Some r \<Rightarrow> if length r < length (c # cs) then remove_all re r else c # remove_all re cs)"
  by pat_completeness auto
termination
  by (relation "measure (\<lambda>(re, s). length s)") auto

text \<open>A literal code unit, one that is not a given code unit, and any code unit
  (\<open>[\s\S]\<close>).\<close>

definition lit :: "jschar \<Rightarrow> atom" where
  "lit c = Cls (\<lambda>x. x = c) One"

definition not_unit :: "jschar \<Rightarrow> jschar \<Rightarrow> bool" where
  "not_unit c = (\<lambda>x. x \<noteq> c)"

definition any_unit :: "jschar \<Rightarrow> bool" where
  "any_unit = (\<lambda>x. True)"

text \<open>
  A literal under the \<open>i\<close> flag: without the \<open>u\<close> flag a pattern character of Basic
  Latin matches exactly its two cases.
\<close>

definition lit_ci :: "jschar \<Rightarrow> atom" where
  "lit_ci c = Cls (\<lambda>x. lower_unit x = lower_unit c) One"

definition lits_ci :: "jsstring \<Rightarrow> atom list" where
  "lits_ci s = map lit_ci s"

text \<open>\<open>/<[^>]*>/g\<close>\<close>

definition tag_re :: "atom list" where
  "tag_re = [lit 0x3C, Cls (not_unit 0x3E) Star, lit 0x3E]"

text \<open>\<open>/<[^>]*class="[^"]*NAME[^"]*"[^>]*>[\s\S]*?<\/[^>]+>/gi\<close> for a class name
  \<open>NAME\<close>.\<close>

definition class_region_re :: "jsstring \<Rightarrow> atom list" where
  "class_region_re name =
     [lit 0x3C, Cls (not_unit 0x3E) Star] @ lits_ci (js ''class='') @ [lit 0x22]
     @ [Cls (not_unit 0x22) Star] @ lits_ci name @ [Cls (not_unit 0x22) Star, lit 0x22]
     @ [Cls (not_unit 0x3E) Star, lit 0x3E, Cls any_unit LazyStar, lit 0x3C, lit 0x2F,
        Cls (not_unit 0x3E) Plus, lit 0x3E]"

section \<open>HTML extraction (utils.ts)\<close>

text \<open>\<open>parseTitle\<close>: the three decorative regions are removed in the source's order,
  then every remaining tag, then the text is trimmed and cut by \<open>slice(0, -2)\<close>.\<close>

definition parseTitle :: "jsstring \<Rightarrow> jsstring" where
  "parseTitle titleHtml =
     (if titleHtml = [] then []
      else
        let html = remove_all (class_region_re (js ''inlineContextMenu'')) titleHtml;
            html = remove_all (class_region_re (js ''announcementType'')) html;
            html = remove_all (class_region_re (js ''announcementPosted'')) html
        in slice (trim (remove_all tag_re html)) 0 (- 2))"

text \<open>The text that \<open>parseTitle\<close> cuts: all regions and tags removed, trimmed.\<close>

definition title_text :: "jsstring \<Rightarrow> jsstring" where
  "title_text titleHtml =
     trim (remove_all tag_re
       (remove_all (class_region_re (js ''announcementPosted''))
         (remove_all (class_region_re (js ''announcementType''))
           (remove_all (class_region_re (js ''inlineContextMenu'')) titleHtml))))"

definition parseContent :: "jsstring \<Rightarrow> jsstring" where
  "parseContent contentHtml =
     (if contentHtml = [] then [] else trim (remove_all tag_re contentHtml))"

text \<open>\<open>removeSuffix\<close>: \<open>courseName.replace(/\([^()]*\)$/, '')\<close>, the first match only.\<close>

definition suffix_re :: "atom list" where
  "suffix_re = [lit 0x28, Cls (\<lambda>x. x \<noteq> 0x28 \<and> x \<noteq> 0x29) Star, lit 0x29, End]"

fun remove_first :: "atom list \<Rightarrow> jsstring \<Rightarrow> jsstring" where
  "remove_first re [] = []"
| "remove_first re (c # cs) =
     (case rmatch re (c # cs) of None \<Rightarrow> c # remove_first re cs | Some r \<Rightarrow> r)"

definition removeSuffix :: "jsstring \<Rightarrow> jsstring" where
  "removeSuffix courseName = remove_first suffix_re courseName"

section \<open>Dates\<close>

text \<open>
  The date functions of the JavaScript runtime are parameters of the model:
  \<open>date_parse\<close> is \<open>new Date(timeStr).getTime()\<close>, with \<open>None\<close> for \<open>NaN\<close> (a string that
  is no date), and \<open>to_locale\<close> is \<open>toLocaleString('zh-CN', {timeZone: 'Asia/Shanghai'})\<close>
  of a time value. Time values are integers (milliseconds since the epoch).
\<close>

record jslib =
  date_parse :: "jsstring \<Rightarrow> int option"
  to_locale :: "int option \<Rightarrow> jsstring"

definition convertToTime :: "jslib \<Rightarrow> int \<Rightarrow> jsstring" where
  "convertToTime lib timestamp = to_locale lib (Some timestamp)"

definition convertToTimestamp :: "jslib \<Rightarrow> jsstring \<Rightarrow> int option" where
  "convertToTimestamp lib timeStr = date_parse lib timeStr"

definition convertTimezone :: "jslib \<Rightarrow> jsstring \<Rightarrow> jsstring" where
  "convertTimezone lib timeStr = to_locale lib (date_parse lib timeStr)"

text \<open>
  \<open>testWithinHours\<close> reads \<open>Date.now()\<close> itself; the reading is the argument \<open>now\<close>.
  A comparison with \<open>NaN\<close> is false.
\<close>

definition testWithinHours :: "jslib \<Rightarrow> int \<Rightarrow> jsstring \<Rightarrow> int \<Rightarrow> bool" where
  "testWithinHours lib now timeStr advanceHours =
     (case convertToTimestamp lib timeStr of
        None \<Rightarrow> False
      | Some targetTimestamp \<Rightarrow> targetTimestamp - now \<le> advanceHours * 3600000)"

section \<open>The per-user configuration (types.ts)\<close>

text \<open>
  \<open>courseAliases\<close> and \<open>specificCourseEvents\<close> are stored as JSON text and read through
  \<open>parseJSON(text, {})\<close>; the fields below hold the object that \<open>parseJSON\<close> returns, as
  the list of its own properties (all of them strings, the format the configuration
  dialogue asks for). A property read \<open>obj[key]\<close> is \<open>map_of obj key\<close>.
\<close>

record BlackboardWatcherConfig =
  courseAliases :: "(jsstring \<times> jsstring) list"
  notifyNotice :: bool
  noticeTitlePrefix :: jsstring
  generalAllowedEvents :: jsstring
  specificCourseEvents :: "(jsstring \<times> jsstring) list"
  notifyAssignment :: bool
  calendarAdvanceHours :: int
  assignmentTitlePrefix :: jsstring

text \<open>\<open>obj[key] || fallback\<close> for string values: the empty string is falsy.\<close>

definition prop_or :: "(jsstring \<times> jsstring) list \<Rightarrow> jsstring \<Rightarrow> jsstring \<Rightarrow> jsstring" where
  "prop_or obj key fallback =
     (case map_of obj key of None \<Rightarrow> fallback | Some v \<Rightarrow> if v = [] then fallback else v)"

section \<open>Notification eligibility (notice_handler.ts)\<close>

definition isEventAllowed :: "BlackboardWatcherConfig \<Rightarrow> jsstring \<Rightarrow> jsstring \<Rightarrow> bool" where
  "isEventAllowed config course event =
     (let specificEvents = specificCourseEvents config;
          allowedEvents = prop_or specificEvents (toLowerCase course) (generalAllowedEvents config)
      in if startsWith event (js ''AS'') then includes_char allowedEvents 0x31
         else if startsWith event (js ''CO'') then includes_char allowedEvents 0x32
         else includes_char allowedEvents 0x33)"






section \<open>Errors, requests and responses\<close>

text \<open>
  The values that the source throws. The source throws plain \<open>Error\<close> objects told apart
  by their message; each constructor is one \<open>throw\<close> site, and an error built from the
  message of its cause carries the cause. \<open>AxiosError\<close> is what the HTTP client throws on a
  transport fault or a non-2xx status: its message and, when a response came, the status
  and the body (\<open>e.response\<close>). \<open>TypeError\<close> is the runtime's error for a value of the
  wrong shape; \<open>DatabaseError\<close> is whatever \<open>ctx.database.create\<close> throws; the four
  errors after it are those of the cipher functions of the runtime (a key that is not 32
  bytes, an initialization vector that is not 16 bytes, an argument that is no hexadecimal
  text, a ciphertext that does not decrypt), and \<open>DecryptionError\<close> is the error that
  \<open>decrypt\<close> throws, built from the message of its cause.
\<close>

datatype exn =
    IAAALoginRejected
  | AxiosError jsstring "(int \<times> jsstring) option"
  | TypeError
  | NoticeDataError exn
  | CalendarDataError exn
  | AssignmentPageError exn
  | DatabaseError jsstring
  | InvalidKeyLength
  | InvalidIV
  | InvalidArgument
  | BadDecrypt
  | DecryptionError exn

record course_info =
  course_id :: jsstring
  course_name :: jsstring

text \<open>A raw notice entry; an optional field is \<open>None\<close> where the source reads
  \<open>undefined\<close>.\<close>

record notice_entry =
  se_id :: jsstring
  se_timestamp :: int
  se_courseId :: jsstring
  se_context :: "jsstring option"
  se_details :: "jsstring option"
  event_type :: "jsstring option"
  se_itemUri :: "jsstring option"
  dueDate :: "jsstring option"

record calendar_entry =
  entry_id :: jsstring
  endDate :: jsstring
  calendarName :: jsstring
  entry_title :: jsstring
  entry_description :: "jsstring option"

text \<open>The bodies (\<open>response.data\<close>) that the endpoints answer with.\<close>

datatype body =
    IAAAReply bool jsstring
  | NoticeFeed "course_info list option" "notice_entry list option"
  | CalendarEvents "calendar_entry list"
  | Page jsstring

record response =
  set_cookie :: "jsstring list"
  data :: body

text \<open>
  One constructor for each request of \<open>blackboard.ts\<close>, with what the request carries:
  the credentials, the token, the window, the reference of a detail page, and the
  \<open>Cookie\<close> header.
\<close>

datatype request =
    IAAALogin jsstring jsstring
  | CampusLogin jsstring
  | StreamViewerView jsstring
  | StreamViewerLoad jsstring
  | SelectedCalendarEvents int int jsstring
  | AssignmentFromNotice jsstring jsstring
  | AssignmentFromCalendar jsstring jsstring

fun is_detail_request :: "request \<Rightarrow> bool" where
  "is_detail_request (AssignmentFromNotice uri c) = True"
| "is_detail_request (AssignmentFromCalendar calendarId c) = True"
| "is_detail_request r = False"

section \<open>The ledger (types.ts, database.ts)\<close>

record NoticeRecord =
  noticeId :: jsstring
  time :: jsstring
  course :: jsstring
  title :: jsstring
  content :: jsstring
  event :: jsstring
  shouldNotify :: bool

text \<open>The fields of an assignment record that a notice record has too carry the prefix
  \<open>a_\<close>.\<close>

record AssignmentRecord =
  assignmentId :: jsstring
  a_time :: jsstring
  a_course :: jsstring
  a_title :: jsstring
  description :: jsstring
  a_shouldNotify :: bool

text \<open>A row of a table: the record with the user and the two time stamps that
  \<open>createNoticeRecords\<close> and \<open>createAssignmentRecords\<close> add.\<close>

record NoticeRow =
  n_userId :: jsstring
  n_createdAt :: int
  n_updatedAt :: int
  n_record :: NoticeRecord

record AssignmentRow =
  a_userId :: jsstring
  a_createdAt :: int
  a_updatedAt :: int
  a_record :: AssignmentRecord

section \<open>The world of a check\<close>

text \<open>What the source logs, one constructor for each logging site.\<close>

datatype log_entry =
    LoginFailed exn
  | NoticeDataFailed exn
  | CalendarDataFailed exn
  | HttpStatus int
  | HttpBody jsstring
  | DetailFailed exn
  | CreateNoticeFailed exn
  | CreateAssignmentFailed exn

text \<open>What the handlers send to the user, one constructor for each message template; a
  notification carries its text.\<close>

datatype message =
    NoticeInitialized nat
  | CalendarInitialized
  | Notification jsstring
  | NoticeFailure exn
  | CalendarFailure exn
  | BadAdvanceHours

text \<open>
  The state that the source reads and writes: the cookies of the client (a \<open>Map\<close>, in
  insertion order), the requests issued so far, the number of clock readings so far, the
  log, the messages sent through \<open>session.send\<close>, and the two tables.
\<close>

record world =
  cookies :: "(jsstring \<times> jsstring) list"
  requests :: "request list"
  ticks :: nat
  logged :: "log_entry list"
  outbox :: "message list"
  notice_record :: "NoticeRow list"
  assignment_record :: "AssignmentRow list"

text \<open>
  What the surroundings do during a check: the answer of the network to each request
  (which may depend on how many requests came before), the reading of the clock at each
  \<open>Date.now()\<close> and \<open>new Date()\<close>, whether the database throws on the creation of a row
  (which may depend on the table), the date functions, and the two extraction functions
  of \<open>utils.ts\<close> on which no property below depends.
\<close>

record env =
  lib :: jslib
  server :: "nat \<Rightarrow> request \<Rightarrow> exn + response"
  clock :: "nat \<Rightarrow> int"
  notice_fault :: "NoticeRow list \<Rightarrow> NoticeRow \<Rightarrow> exn option"
  assignment_fault :: "AssignmentRow list \<Rightarrow> AssignmentRow \<Rightarrow> exn option"
  hasAttempted :: "jsstring \<Rightarrow> bool"
  parseInstruction :: "jsstring \<Rightarrow> jsstring"

definition date_now :: "env \<Rightarrow> world \<Rightarrow> int \<times> world" where
  "date_now e w = (clock e (ticks w), w\<lparr>ticks := Suc (ticks w)\<rparr>)"

definition http :: "env \<Rightarrow> request \<Rightarrow> world \<Rightarrow> (exn + response) \<times> world" where
  "http e req w = (server e (length (requests w)) req, w\<lparr>requests := requests w @ [req]\<rparr>)"

definition send :: "message \<Rightarrow> world \<Rightarrow> world" where
  "send m w = w\<lparr>outbox := outbox w @ [m]\<rparr>"

definition log_error :: "log_entry list \<Rightarrow> world \<Rightarrow> world" where
  "log_error ls w = w\<lparr>logged := logged w @ ls\<rparr>"

text \<open>The two lines that the source logs when the error has a response.\<close>

fun response_lines :: "exn \<Rightarrow> log_entry list" where
  "response_lines (AxiosError m (Some (status, d))) = [HttpStatus status, HttpBody d]"
| "response_lines ex = []"

section \<open>The client (blackboard.ts)\<close>

text \<open>\<open>String.prototype.split\<close> at a one-character separator: the pieces between the
  separators, at least one.\<close>

fun split_on :: "jschar \<Rightarrow> jsstring \<Rightarrow> jsstring list" where
  "split_on sep [] = [[]]"
| "split_on sep (c # cs) =
     (if c = sep then [] # split_on sep cs
      else (case split_on sep cs of [] \<Rightarrow> [[c]] | p # ps \<Rightarrow> (c # p) # ps))"

text \<open>
  One \<open>set-cookie\<close> header: the text before the first \<open>;\<close> is split at \<open>=\<close>; the first
  two pieces are the name and the value, and the cookie is kept when both are non-empty.
\<close>

definition cookie_pair :: "jsstring \<Rightarrow> (jsstring \<times> jsstring) option" where
  "cookie_pair cookie =
     (case split_on 0x3B cookie of
        [] \<Rightarrow> None
      | nameValue # rest \<Rightarrow>
          (case split_on 0x3D nameValue of
             nm # val # others \<Rightarrow>
               if nm \<noteq> [] \<and> val \<noteq> [] then Some (trim nm, trim val) else None
           | other \<Rightarrow> None))"

definition extractCookies :: "response \<Rightarrow> world \<Rightarrow> world" where
  "extractCookies resp w =
     w\<lparr>cookies :=
         foldl (\<lambda>cs cookie.
                  case cookie_pair cookie of
                    None \<Rightarrow> cs
                  | Some (nm, val) \<Rightarrow> AList.update nm val cs)
           (cookies w) (set_cookie resp)\<rparr>"

fun join_with :: "jsstring \<Rightarrow> jsstring list \<Rightarrow> jsstring" where
  "join_with sep [] = []"
| "join_with sep [x] = x"
| "join_with sep (x # y # ys) = x @ sep @ join_with sep (y # ys)"

definition generateCookieString :: "world \<Rightarrow> jsstring" where
  "generateCookieString w =
     join_with (js ''; '') (map (\<lambda>(nm, val). nm @ [0x3D] @ val) (cookies w))"

text \<open>
  \<open>login\<close>: the whole body is inside \<open>try\<close>, and the handler logs and returns \<open>false\<close>,
  whatever was thrown. A body without a true \<open>success\<close> is a rejection.
\<close>

definition login_failed :: "exn \<Rightarrow> world \<Rightarrow> bool \<times> world" where
  "login_failed ex w = (False, log_error (LoginFailed ex # response_lines ex) w)"

definition login :: "env \<Rightarrow> jsstring \<Rightarrow> jsstring \<Rightarrow> world \<Rightarrow> bool \<times> world" where
  "login e username password w =
     (case http e (IAAALogin username password) w of
        (Inl ex, w1) \<Rightarrow> login_failed ex w1
      | (Inr resp, w1) \<Rightarrow>
          (case data resp of
             IAAAReply True token \<Rightarrow>
               (case http e (CampusLogin token) w1 of
                  (Inl ex, w2) \<Rightarrow> login_failed ex w2
                | (Inr resp2, w2) \<Rightarrow> (True, extractCookies resp2 w2))
           | other \<Rightarrow> login_failed IAAALoginRejected w1))"

text \<open>\<open>getNoticeData\<close>; the pause of three seconds between the two requests has no
  counterpart in the model.\<close>

definition notice_data_failed :: "exn \<Rightarrow> world \<Rightarrow> (exn + body) \<times> world" where
  "notice_data_failed ex w =
     (Inl (NoticeDataError ex), log_error (NoticeDataFailed ex # response_lines ex) w)"

definition getNoticeData :: "env \<Rightarrow> world \<Rightarrow> (exn + body) \<times> world" where
  "getNoticeData e w =
     (case http e (StreamViewerView (generateCookieString w)) w of
        (Inl ex, w1) \<Rightarrow> notice_data_failed ex w1
      | (Inr resp, w1) \<Rightarrow>
          (let w2 = extractCookies resp w1 in
           case http e (StreamViewerLoad (generateCookieString w2)) w2 of
             (Inl ex, w3) \<Rightarrow> notice_data_failed ex w3
           | (Inr resp2, w3) \<Rightarrow> (Inr (data resp2), extractCookies resp2 w3)))"

text \<open>
  \<open>getCalendarData\<close>: the window goes to the server as \<open>start\<close> and \<open>end\<close>; on the
  answer, \<open>filter\<close> keeps the entries that pass \<open>testWithinHours\<close>, each tested against
  its own reading of the clock. A body that is no array has no \<open>filter\<close>.
\<close>

fun filter_within :: "env \<Rightarrow> int \<Rightarrow> calendar_entry list \<Rightarrow> world \<Rightarrow> calendar_entry list \<times> world"
  where
  "filter_within e advanceHours [] w = ([], w)"
| "filter_within e advanceHours (entry # entries) w =
     (case date_now e w of
        (now, w1) \<Rightarrow>
          (case filter_within e advanceHours entries w1 of
             (kept, w2) \<Rightarrow>
               (if testWithinHours (lib e) now (endDate entry) advanceHours
                then (entry # kept, w2) else (kept, w2))))"

definition calendar_data_failed :: "exn \<Rightarrow> world \<Rightarrow> (exn + calendar_entry list) \<times> world" where
  "calendar_data_failed ex w =
     (Inl (CalendarDataError ex), log_error (CalendarDataFailed ex # response_lines ex) w)"

definition getCalendarData ::
  "env \<Rightarrow> int \<Rightarrow> world \<Rightarrow> (exn + calendar_entry list) \<times> world" where
  "getCalendarData e advanceHours w =
     (case date_now e w of
        (currentTimestamp, w0) \<Rightarrow>
          (case http e
                  (SelectedCalendarEvents (currentTimestamp - 3 * 3600000)
                     (currentTimestamp + advanceHours * 3600000) (generateCookieString w0)) w0 of
             (Inl ex, w1) \<Rightarrow> calendar_data_failed ex w1
           | (Inr resp, w1) \<Rightarrow>
               (let w2 = extractCookies resp w1 in
                case data resp of
                  CalendarEvents entries \<Rightarrow>
                    (case filter_within e advanceHours entries w2 of
                       (filteredData, w3) \<Rightarrow> (Inr filteredData, w3))
                | other \<Rightarrow> calendar_data_failed TypeError w2)))"

definition getAssignmentFromNotice :: "env \<Rightarrow> jsstring \<Rightarrow> world \<Rightarrow> (exn + body) \<times> world" where
  "getAssignmentFromNotice e uri w =
     (case http e (AssignmentFromNotice uri (generateCookieString w)) w of
        (Inl ex, w1) \<Rightarrow> (Inl (AssignmentPageError ex), w1)
      | (Inr resp, w1) \<Rightarrow> (Inr (data resp), extractCookies resp w1))"

definition getAssignmentFromCalendar :: "env \<Rightarrow> jsstring \<Rightarrow> world \<Rightarrow> (exn + body) \<times> world"
  where
  "getAssignmentFromCalendar e calendarId w =
     (case http e (AssignmentFromCalendar calendarId (generateCookieString w)) w of
        (Inl ex, w1) \<Rightarrow> (Inl (AssignmentPageError ex), w1)
      | (Inr resp, w1) \<Rightarrow> (Inr (data resp), extractCookies resp w1))"

section \<open>Persistence (database.ts)\<close>

definition getNoticeRecords :: "world \<Rightarrow> jsstring \<Rightarrow> NoticeRow list" where
  "getNoticeRecords w userId = filter (\<lambda>r. n_userId r = userId) (notice_record w)"

definition getAssignmentRecords :: "world \<Rightarrow> jsstring \<Rightarrow> AssignmentRow list" where
  "getAssignmentRecords w userId = filter (\<lambda>r. a_userId r = userId) (assignment_record w)"

text \<open>The ids of the records of a user (\<open>oldNoticeIds\<close>, \<open>oldAssignmentIds\<close>; the
  source holds them in a \<open>Set\<close> and only asks for membership).\<close>

definition notice_ids :: "world \<Rightarrow> jsstring \<Rightarrow> jsstring list" where
  "notice_ids w userId = map (\<lambda>r. noticeId (n_record r)) (getNoticeRecords w userId)"

definition assignment_ids :: "world \<Rightarrow> jsstring \<Rightarrow> jsstring list" where
  "assignment_ids w userId = map (\<lambda>r. assignmentId (a_record r)) (getAssignmentRecords w userId)"

text \<open>\<open>ctx.database.create\<close>: the row is appended unless the database throws.\<close>

definition create_notice :: "env \<Rightarrow> NoticeRow \<Rightarrow> world \<Rightarrow> (exn + unit) \<times> world" where
  "create_notice e r w =
     (case notice_fault e (notice_record w) r of
        Some ex \<Rightarrow> (Inl ex, w)
      | None \<Rightarrow> (Inr (), w\<lparr>notice_record := notice_record w @ [r]\<rparr>))"

definition create_assignment :: "env \<Rightarrow> AssignmentRow \<Rightarrow> world \<Rightarrow> (exn + unit) \<times> world" where
  "create_assignment e r w =
     (case assignment_fault e (assignment_record w) r of
        Some ex \<Rightarrow> (Inl ex, w)
      | None \<Rightarrow> (Inr (), w\<lparr>assignment_record := assignment_record w @ [r]\<rparr>))"

text \<open>The loop inside \<open>try\<close>: the first row on which \<open>create\<close> throws ends it.\<close>

fun create_notice_rows :: "env \<Rightarrow> NoticeRow list \<Rightarrow> world \<Rightarrow> (exn + unit) \<times> world" where
  "create_notice_rows e [] w = (Inr (), w)"
| "create_notice_rows e (r # rs) w =
     (case create_notice e r w of
        (Inl ex, w1) \<Rightarrow> (Inl ex, w1)
      | (Inr u, w1) \<Rightarrow> create_notice_rows e rs w1)"

fun create_assignment_rows :: "env \<Rightarrow> AssignmentRow list \<Rightarrow> world \<Rightarrow> (exn + unit) \<times> world"
  where
  "create_assignment_rows e [] w = (Inr (), w)"
| "create_assignment_rows e (r # rs) w =
     (case create_assignment e r w of
        (Inl ex, w1) \<Rightarrow> (Inl ex, w1)
      | (Inr u, w1) \<Rightarrow> create_assignment_rows e rs w1)"

definition notice_row :: "jsstring \<Rightarrow> int \<Rightarrow> NoticeRecord \<Rightarrow> NoticeRow" where
  "notice_row userId now r =
     \<lparr>n_userId = userId, n_createdAt = now, n_updatedAt = now, n_record = r\<rparr>"

definition assignment_row :: "jsstring \<Rightarrow> int \<Rightarrow> AssignmentRecord \<Rightarrow> AssignmentRow" where
  "assignment_row userId now r =
     \<lparr>a_userId = userId, a_createdAt = now, a_updatedAt = now, a_record = r\<rparr>"

definition createNoticeRecords :: "env \<Rightarrow> jsstring \<Rightarrow> NoticeRecord list \<Rightarrow> world \<Rightarrow> world" where
  "createNoticeRecords e userId records w =
     (case date_now e w of
        (now, w0) \<Rightarrow>
          (case create_notice_rows e (map (notice_row userId now) records) w0 of
             (Inl ex, w1) \<Rightarrow> log_error [CreateNoticeFailed ex] w1
           | (Inr u, w1) \<Rightarrow> w1))"

definition createAssignmentRecords ::
  "env \<Rightarrow> jsstring \<Rightarrow> AssignmentRecord list \<Rightarrow> world \<Rightarrow> world" where
  "createAssignmentRecords e userId records w =
     (case date_now e w of
        (now, w0) \<Rightarrow>
          (case create_assignment_rows e (map (assignment_row userId now) records) w0 of
             (Inl ex, w1) \<Rightarrow> log_error [CreateAssignmentFailed ex] w1
           | (Inr u, w1) \<Rightarrow> w1))"

section \<open>The notice handler (notice_handler.ts)\<close>

text \<open>\<open>x || ''\<close> for a string that may be \<open>undefined\<close>.\<close>

definition or_empty :: "jsstring option \<Rightarrow> jsstring" where
  "or_empty x = (case x of None \<Rightarrow> [] | Some s \<Rightarrow> s)"

definition sentinel :: jsstring where
  "sentinel = js ''%init%''"

definition colon :: jsstring where
  "colon = [0xFF1A]"

definition posted_label :: jsstring where
  "posted_label = [0x0A, 0x53D1, 0x5E03, 0x65F6, 0x95F4, 0xFF1A]"

definition deadline_label :: jsstring where
  "deadline_label = [0x0A, 0x622A, 0x6B62, 0x65F6, 0x95F4, 0xFF1A]"

definition personal :: jsstring where
  "personal = [0x4E2A, 0x4EBA]"

text \<open>The assignment of \<open>courseDict\<close>: a later course of the list overwrites an earlier
  one with the same id.\<close>

definition course_dict :: "course_info list \<Rightarrow> (jsstring \<rightharpoonup> jsstring)" where
  "course_dict courseList =
     fold (\<lambda>c m. m(course_id c \<mapsto> removeSuffix (course_name c))) courseList Map.empty"

definition filterNoticeInfo ::
  "env \<Rightarrow> BlackboardWatcherConfig \<Rightarrow> notice_entry \<Rightarrow> (jsstring \<rightharpoonup> jsstring) \<Rightarrow> bool \<Rightarrow> world
   \<Rightarrow> NoticeRecord \<times> world" where
  "filterNoticeInfo e config entry courseDict isInit w =
     (let ident = se_id entry;
          tm = convertToTime (lib e) (se_timestamp entry);
          crs = or_empty (courseDict (se_courseId entry));
          ttl = parseTitle (or_empty (se_context entry));
          cnt = parseContent (or_empty (se_details entry));
          evt = or_empty (event_type entry);
          notify = isEventAllowed config crs evt;
          result = (\<lambda>text.
            \<lparr>noticeId = ident, time = tm, course = crs, title = ttl, content = trim text,
             event = evt, shouldNotify = notify\<rparr>)
      in if evt = js ''AS:AS_AVAIL'' \<and> or_empty (se_itemUri entry) \<noteq> [] \<and> notify \<and> \<not> isInit
         then
           (case getAssignmentFromNotice e (or_empty (se_itemUri entry)) w of
              (Inl ex, w1) \<Rightarrow> (result cnt, log_error [DetailFailed ex] w1)
            | (Inr page, w1) \<Rightarrow>
                (case page of
                   Page assignmentHtml \<Rightarrow>
                     (let instruction = parseInstruction e assignmentHtml;
                          cnt1 = (if instruction \<noteq> [] then cnt @ [0x0A] @ instruction else cnt);
                          cnt2 = (if or_empty (dueDate entry) \<noteq> []
                                  then cnt1 @ deadline_label
                                         @ convertTimezone (lib e) (or_empty (dueDate entry))
                                  else cnt1)
                      in (result cnt2, w1))
                 | other \<Rightarrow> (result cnt, log_error [DetailFailed TypeError] w1)))
         else (result cnt, w))"

definition notifyNotice :: "BlackboardWatcherConfig \<Rightarrow> NoticeRecord \<Rightarrow> world \<Rightarrow> world" where
  "notifyNotice config r w =
     (let aliases = courseAliases config;
          crs = prop_or aliases (toLowerCase (course r)) (course r);
          sep = (if length crs > 0 then colon else []);
          subject = noticeTitlePrefix config @ js '' '' @ crs @ sep @ title r;
          text = content r @ posted_label @ time r
      in send (Notification (subject @ [0x0A] @ trim text)) w)"

text \<open>The loop over the stream entries: an entry whose id is among the old ids is
  skipped, every other entry becomes a record.\<close>

fun collect_notices ::
  "env \<Rightarrow> BlackboardWatcherConfig \<Rightarrow> (jsstring \<rightharpoonup> jsstring) \<Rightarrow> bool \<Rightarrow> jsstring list
   \<Rightarrow> notice_entry list \<Rightarrow> world \<Rightarrow> NoticeRecord list \<times> world" where
  "collect_notices e config courseDict isInit oldNoticeIds [] w = ([], w)"
| "collect_notices e config courseDict isInit oldNoticeIds (entry # entries) w =
     (if se_id entry \<notin> set oldNoticeIds
      then (case filterNoticeInfo e config entry courseDict isInit w of
              (r, w1) \<Rightarrow>
                (case collect_notices e config courseDict isInit oldNoticeIds entries w1 of
                   (rs, w2) \<Rightarrow> (r # rs, w2)))
      else collect_notices e config courseDict isInit oldNoticeIds entries w)"

fun notify_notices :: "BlackboardWatcherConfig \<Rightarrow> NoticeRecord list \<Rightarrow> world \<Rightarrow> world" where
  "notify_notices config [] w = w"
| "notify_notices config (r # rs) w =
     notify_notices config rs (if shouldNotify r then notifyNotice config r w else w)"

definition notice_init_record :: "jsstring \<Rightarrow> NoticeRecord" where
  "notice_init_record now_text =
     \<lparr>noticeId = sentinel, time = now_text, course = [],
      title = [0x521D, 0x59CB, 0x5316, 0x6807, 0x8BB0],
      content = [0x901A, 0x77E5, 0x63D0, 0x9192, 0x6A21, 0x5757, 0x521D, 0x59CB, 0x5316,
                 0x5B8C, 0x6210],
      event = [], shouldNotify = False\<rparr>"

definition courses_of :: "body \<Rightarrow> course_info list" where
  "courses_of noticeData =
     (case noticeData of NoticeFeed (Some courseList) entries \<Rightarrow> courseList | other \<Rightarrow> [])"

definition stream_entries_of :: "body \<Rightarrow> notice_entry list" where
  "stream_entries_of noticeData =
     (case noticeData of NoticeFeed courseList (Some entries) \<Rightarrow> entries | other \<Rightarrow> [])"

definition save_notices :: "env \<Rightarrow> jsstring \<Rightarrow> NoticeRecord list \<Rightarrow> world \<Rightarrow> world" where
  "save_notices e userId updatedNoticeRecords w =
     (if length updatedNoticeRecords > 0
      then createNoticeRecords e userId updatedNoticeRecords w else w)"

text \<open>\<open>NoticeHandler.process\<close>.\<close>

definition notice_process :: "env \<Rightarrow> BlackboardWatcherConfig \<Rightarrow> jsstring \<Rightarrow> world \<Rightarrow> world" where
  "notice_process e config userId w =
     (case getNoticeData e w of
        (Inl ex, w1) \<Rightarrow> send (NoticeFailure ex) w1
      | (Inr noticeData, w1) \<Rightarrow>
          (let courseDict = course_dict (courses_of noticeData);
               oldNoticeIds = notice_ids w1 userId;
               isInit = (sentinel \<notin> set oldNoticeIds)
           in case collect_notices e config courseDict isInit oldNoticeIds
                     (stream_entries_of noticeData) w1 of
                (updatedNoticeRecords, w2) \<Rightarrow>
                  if isInit
                  then (case date_now e
                               (send (NoticeInitialized (length updatedNoticeRecords)) w2) of
                          (now, w3) \<Rightarrow>
                            save_notices e userId
                              (updatedNoticeRecords
                                 @ [notice_init_record (convertToTime (lib e) now)]) w3)
                  else save_notices e userId updatedNoticeRecords
                         (notify_notices config updatedNoticeRecords w2)))"

section \<open>The calendar handler (calendar_handler.ts)\<close>

definition filterAssignmentInfo :: "env \<Rightarrow> calendar_entry \<Rightarrow> world \<Rightarrow> AssignmentRecord \<times> world"
  where
  "filterAssignmentInfo e entry w =
     (let ident = entry_id entry;
          tm = convertTimezone (lib e) (endDate entry);
          crs = remove_first suffix_re (calendarName entry);
          ttl = entry_title entry;
          dsc = or_empty (entry_description entry);
          result = (\<lambda>text notify.
            \<lparr>assignmentId = ident, a_time = tm, a_course = crs, a_title = ttl,
             description = trim text, a_shouldNotify = notify\<rparr>)
      in if crs \<noteq> personal
         then
           (case getAssignmentFromCalendar e ident w of
              (Inl ex, w1) \<Rightarrow> (result dsc True, log_error [DetailFailed ex] w1)
            | (Inr page, w1) \<Rightarrow>
                (case page of
                   Page assignmentHtml \<Rightarrow>
                     (if \<not> hasAttempted e assignmentHtml
                      then (let instruction = parseInstruction e assignmentHtml
                            in (result (if instruction \<noteq> [] then dsc @ [0x0A] @ instruction
                                        else dsc) True, w1))
                      else (result dsc False, w1))
                 | other \<Rightarrow> (result dsc True, log_error [DetailFailed TypeError] w1)))
         else (result dsc True, w))"

definition notifyAssignment :: "BlackboardWatcherConfig \<Rightarrow> AssignmentRecord \<Rightarrow> world \<Rightarrow> world"
  where
  "notifyAssignment config r w =
     (let subject =
            (if a_course r = personal
             then assignmentTitlePrefix config @ js '' '' @ a_title r
             else (let aliases = courseAliases config;
                       crs = prop_or aliases (toLowerCase (a_course r)) (a_course r);
                       sep = (if length crs > 0 then colon else [])
                   in assignmentTitlePrefix config @ js '' '' @ crs @ sep @ a_title r));
          text = description r @ deadline_label @ a_time r
      in send (Notification (subject @ [0x0A] @ trim text)) w)"

fun collect_assignments ::
  "env \<Rightarrow> jsstring list \<Rightarrow> calendar_entry list \<Rightarrow> world \<Rightarrow> AssignmentRecord list \<times> world" where
  "collect_assignments e oldAssignmentIds [] w = ([], w)"
| "collect_assignments e oldAssignmentIds (entry # entries) w =
     (if entry_id entry \<notin> set oldAssignmentIds
      then (case filterAssignmentInfo e entry w of
              (r, w1) \<Rightarrow>
                (case collect_assignments e oldAssignmentIds entries w1 of
                   (rs, w2) \<Rightarrow> (r # rs, w2)))
      else collect_assignments e oldAssignmentIds entries w)"

fun notify_assignments :: "BlackboardWatcherConfig \<Rightarrow> AssignmentRecord list \<Rightarrow> world \<Rightarrow> world"
  where
  "notify_assignments config [] w = w"
| "notify_assignments config (r # rs) w =
     notify_assignments config rs (if a_shouldNotify r then notifyAssignment config r w else w)"

definition assignment_init_record :: "jsstring \<Rightarrow> AssignmentRecord" where
  "assignment_init_record now_text =
     \<lparr>assignmentId = sentinel, a_time = now_text, a_course = [],
      a_title = [0x521D, 0x59CB, 0x5316, 0x6807, 0x8BB0],
      description = [0x65E5, 0x7A0B, 0x6A21, 0x5757, 0x521D, 0x59CB, 0x5316, 0x5B8C, 0x6210],
      a_shouldNotify = False\<rparr>"

definition save_assignments :: "env \<Rightarrow> jsstring \<Rightarrow> AssignmentRecord list \<Rightarrow> world \<Rightarrow> world"
  where
  "save_assignments e userId updatedAssignmentRecords w =
     (if length updatedAssignmentRecords > 0
      then createAssignmentRecords e userId updatedAssignmentRecords w else w)"

text \<open>\<open>CalendarHandler.process\<close>.\<close>

definition calendar_process :: "env \<Rightarrow> BlackboardWatcherConfig \<Rightarrow> jsstring \<Rightarrow> world \<Rightarrow> world"
  where
  "calendar_process e config userId w =
     (if calendarAdvanceHours config \<le> 0 then send BadAdvanceHours w
      else
        (case getCalendarData e (calendarAdvanceHours config) w of
           (Inl ex, w1) \<Rightarrow> send (CalendarFailure ex) w1
         | (Inr calendarData, w1) \<Rightarrow>
             (let oldAssignmentIds = assignment_ids w1 userId;
                  isInit = (sentinel \<notin> set oldAssignmentIds)
              in case collect_assignments e oldAssignmentIds calendarData w1 of
                   (updatedAssignmentRecords, w2) \<Rightarrow>
                     if isInit
                     then (case date_now e (send CalendarInitialized w2) of
                             (now, w3) \<Rightarrow>
                               save_assignments e userId
                                 (updatedAssignmentRecords
                                    @ [assignment_init_record (convertToTime (lib e) now)]) w3)
                     else save_assignments e userId updatedAssignmentRecords
                            (notify_assignments config updatedAssignmentRecords w2))))"

section \<open>The credential vault (utils.ts)\<close>

type_synonym byte = "8 word"

text \<open>
  \<open>Buffer.from(string)\<close> and the input encoding \<open>'utf8'\<close>: the UTF-8 encoding of a
  sequence of UTF-16 code units. A surrogate pair is one code point of four bytes; a
  surrogate that stands alone is replaced by U+FFFD.
\<close>

definition is_high_surrogate :: "jschar \<Rightarrow> bool" where
  "is_high_surrogate u = (0xD800 \<le> u \<and> u \<le> 0xDBFF)"

definition is_low_surrogate :: "jschar \<Rightarrow> bool" where
  "is_low_surrogate u = (0xDC00 \<le> u \<and> u \<le> 0xDFFF)"

definition encode_code_point :: "nat \<Rightarrow> byte list" where
  "encode_code_point n =
     (if n < 0x80 then [of_nat n]
      else if n < 0x800 then [of_nat (0xC0 + n div 64), of_nat (0x80 + n mod 64)]
      else if n < 0x10000
      then [of_nat (0xE0 + n div 4096), of_nat (0x80 + n div 64 mod 64), of_nat (0x80 + n mod 64)]
      else [of_nat (0xF0 + n div 262144), of_nat (0x80 + n div 4096 mod 64),
            of_nat (0x80 + n div 64 mod 64), of_nat (0x80 + n mod 64)])"

fun utf8_encode :: "jsstring \<Rightarrow> byte list" where
  "utf8_encode [] = []"
| "utf8_encode [u] =
     (if is_high_surrogate u \<or> is_low_surrogate u then [0xEF, 0xBF, 0xBD]
      else encode_code_point (unat u))"
| "utf8_encode (u # v # rest) =
     (if is_high_surrogate u \<and> is_low_surrogate v
      then encode_code_point (0x10000 + (unat u - 0xD800) * 1024 + (unat v - 0xDC00))
             @ utf8_encode rest
      else if is_high_surrogate u \<or> is_low_surrogate u
      then [0xEF, 0xBF, 0xBD] @ utf8_encode (v # rest)
      else encode_code_point (unat u) @ utf8_encode (v # rest))"

text \<open>
  The output encoding \<open>'utf8'\<close>: the UTF-8 decoder of the runtime, which never fails. A
  lead byte sets the number of continuation bytes that are needed and the range of the
  next one; a byte outside the range ends the sequence with U+FFFD and is read again as
  a lead byte; a sequence cut by the end of the input gives U+FFFD.
\<close>

function decode_bytes :: "nat \<Rightarrow> nat \<Rightarrow> nat \<Rightarrow> nat \<Rightarrow> nat list \<Rightarrow> nat list" where
  "decode_bytes needed cp lower upper [] = (if needed = 0 then [] else [0xFFFD])"
| "decode_bytes 0 cp lower upper (b # bs) =
     (if b \<le> 0x7F then b # decode_bytes 0 0 0x80 0xBF bs
      else if 0xC2 \<le> b \<and> b \<le> 0xDF then decode_bytes 1 (b - 0xC0) 0x80 0xBF bs
      else if 0xE0 \<le> b \<and> b \<le> 0xEF
      then decode_bytes 2 (b - 0xE0) (if b = 0xE0 then 0xA0 else 0x80)
             (if b = 0xED then 0x9F else 0xBF) bs
      else if 0xF0 \<le> b \<and> b \<le> 0xF4
      then decode_bytes 3 (b - 0xF0) (if b = 0xF0 then 0x90 else 0x80)
             (if b = 0xF4 then 0x8F else 0xBF) bs
      else 0xFFFD # decode_bytes 0 0 0x80 0xBF bs)"
| "decode_bytes (Suc n) cp lower upper (b # bs) =
     (if lower \<le> b \<and> b \<le> upper
      then (if n = 0 then (cp * 64 + (b - 0x80)) # decode_bytes 0 0 0x80 0xBF bs
            else decode_bytes n (cp * 64 + (b - 0x80)) 0x80 0xBF bs)
      else 0xFFFD # decode_bytes 0 0 0x80 0xBF (b # bs))"
  by pat_completeness auto
termination
  by (relation "measures [\<lambda>(needed, cp, lower, upper, bs). length bs,
                          \<lambda>(needed, cp, lower, upper, bs). needed]") auto

definition code_point_units :: "nat \<Rightarrow> jsstring" where
  "code_point_units n =
     (if n < 0x10000 then [of_nat n]
      else [of_nat (0xD800 + (n - 0x10000) div 1024), of_nat (0xDC00 + (n - 0x10000) mod 1024)])"

definition utf8_decode :: "byte list \<Rightarrow> jsstring" where
  "utf8_decode bs = concat (map code_point_units (decode_bytes 0 0 0x80 0xBF (map unat bs)))"

text \<open>\<open>buffer.toString('hex')\<close> and the encoding \<open>'hex'\<close> of the cipher's output.\<close>

definition hex_digit :: "nat \<Rightarrow> jschar" where
  "hex_digit n = (if n < 10 then of_nat (0x30 + n) else of_nat (0x61 + (n - 10)))"

definition hex_encode :: "byte list \<Rightarrow> jsstring" where
  "hex_encode bs = concat (map (\<lambda>b. [hex_digit (unat b div 16), hex_digit (unat b mod 16)]) bs)"

text \<open>
  \<open>Buffer.from(string, 'hex')\<close> and the input encoding \<open>'hex'\<close>: two digits make a byte;
  decoding stops at the first pair that is not two hexadecimal digits, and a last single
  character is dropped.
\<close>

definition hex_value :: "jschar \<Rightarrow> nat option" where
  "hex_value c =
     (if 0x30 \<le> c \<and> c \<le> 0x39 then Some (unat c - 0x30)
      else if 0x61 \<le> c \<and> c \<le> 0x66 then Some (unat c - 0x61 + 10)
      else if 0x41 \<le> c \<and> c \<le> 0x46 then Some (unat c - 0x41 + 10)
      else None)"

fun hex_decode :: "jsstring \<Rightarrow> byte list" where
  "hex_decode (a # b # rest) =
     (case hex_value a of
        None \<Rightarrow> []
      | Some x \<Rightarrow> (case hex_value b of
                     None \<Rightarrow> []
                   | Some y \<Rightarrow> of_nat (16 * x + y) # hex_decode rest))"
| "hex_decode s = []"

text \<open>
  The cipher \<open>aes-256-cbc\<close> of the runtime is a parameter of the model: what
  \<open>update\<close> followed by \<open>final\<close> makes of the bytes, for a key, an initialization vector
  and an input. Decryption gives \<open>None\<close> where \<open>final\<close> throws (a length that is no
  multiple of the block, a padding that is not valid). The check of the lengths of the key
  and of the initialization vector by \<open>createCipheriv\<close> and \<open>createDecipheriv\<close> is
  modelled.
\<close>

record aes_cbc =
  cbc_encrypt :: "byte list \<Rightarrow> byte list \<Rightarrow> byte list \<Rightarrow> byte list"
  cbc_decrypt :: "byte list \<Rightarrow> byte list \<Rightarrow> byte list \<Rightarrow> byte list option"

definition createCipheriv :: "byte list \<Rightarrow> byte list \<Rightarrow> exn + unit" where
  "createCipheriv key_buffer iv =
     (if length key_buffer \<noteq> 32 then Inl InvalidKeyLength
      else if length iv \<noteq> 16 then Inl InvalidIV else Inr ())"

definition padEnd :: "jsstring \<Rightarrow> nat \<Rightarrow> jschar \<Rightarrow> jsstring" where
  "padEnd s n c = s @ replicate (n - length s) c"

text \<open>\<open>Buffer.from(this.encryptionKey.padEnd(32, '0').slice(0, 32))\<close>\<close>

definition key_buffer :: "jsstring \<Rightarrow> byte list" where
  "key_buffer encryptionKey = utf8_encode (slice (padEnd encryptionKey 32 0x30) 0 32)"

text \<open>\<open>CryptoUtils.encrypt\<close>; the sixteen bytes of \<open>randomBytes\<close> are the argument
  \<open>iv\<close>. Nothing catches what \<open>createCipheriv\<close> throws.\<close>

definition encrypt :: "aes_cbc \<Rightarrow> byte list \<Rightarrow> jsstring \<Rightarrow> jsstring \<Rightarrow> exn + jsstring" where
  "encrypt aes iv text encryptionKey =
     (case createCipheriv (key_buffer encryptionKey) iv of
        Inl ex \<Rightarrow> Inl ex
      | Inr u \<Rightarrow>
          Inr (hex_encode iv @ [0x3A]
               @ hex_encode (cbc_encrypt aes (key_buffer encryptionKey) iv (utf8_encode text))))"

text \<open>The body of the \<open>try\<close> of \<open>decrypt\<close>. Without a second part \<open>encrypted\<close> is
  \<open>undefined\<close>, which \<open>update\<close> does not take; it does not take a hexadecimal text of
  odd length either.\<close>

definition decrypt_body :: "aes_cbc \<Rightarrow> jsstring \<Rightarrow> jsstring \<Rightarrow> exn + jsstring" where
  "decrypt_body aes text encryptionKey =
     (let parts = split_on 0x3A text;
          iv = hex_decode (case parts of [] \<Rightarrow> [] | p # ps \<Rightarrow> p)
      in case createCipheriv (key_buffer encryptionKey) iv of
           Inl ex \<Rightarrow> Inl ex
         | Inr u \<Rightarrow>
             (case parts of
                p # encrypted # ps \<Rightarrow>
                  if odd (length encrypted) then Inl InvalidArgument
                  else (case cbc_decrypt aes (key_buffer encryptionKey) iv (hex_decode encrypted) of
                          None \<Rightarrow> Inl BadDecrypt
                        | Some decrypted \<Rightarrow> Inr (utf8_decode decrypted))
              | other \<Rightarrow> Inl TypeError))"

definition decrypt :: "aes_cbc \<Rightarrow> jsstring \<Rightarrow> jsstring \<Rightarrow> exn + jsstring" where
  "decrypt aes text encryptionKey =
     (if text = [] then Inr []
      else (case decrypt_body aes text encryptionKey of
              Inl ex \<Rightarrow> Inl (DecryptionError ex)
            | Inr decrypted \<Rightarrow> Inr decrypted))"

text \<open>What the runtime promises of the cipher: with a key of 32 bytes and an
  initialization vector of 16 bytes, decryption gives back what was encrypted.\<close>

definition cipher_contract :: "aes_cbc \<Rightarrow> bool" where
  "cipher_contract aes =
     (\<forall>k iv p. length k = 32 \<longrightarrow> length iv = 16 \<longrightarrow>
        cbc_decrypt aes k iv (cbc_encrypt aes k iv p) = Some p)"

section \<open>Sequences of sync passes\<close>

text \<open>A sync pass is one run of a handler for a user, in its own surroundings and with
  the configuration of the moment.\<close>

datatype pass =
    NoticePass env BlackboardWatcherConfig jsstring
  | CalendarPass env BlackboardWatcherConfig jsstring

fun run_pass :: "pass \<Rightarrow> world \<Rightarrow> world" where
  "run_pass (NoticePass e config userId) w = notice_process e config userId w"
| "run_pass (CalendarPass e config userId) w = calendar_process e config userId w"

definition run_passes :: "pass list \<Rightarrow> world \<Rightarrow> world" where
  "run_passes ps w = fold run_pass ps w"

fun pass_env :: "pass \<Rightarrow> env" where
  "pass_env (NoticePass e config userId) = e"
| "pass_env (CalendarPass e config userId) = e"

text \<open>The server never answers with a feed in which an id occurs twice or in which an
  entry has the id of the sentinel.\<close>

definition distinct_feeds :: "env \<Rightarrow> bool" where
  "distinct_feeds e =
     (\<forall>n req resp. server e n req = Inr resp \<longrightarrow>
        (case data resp of
           NoticeFeed courseList (Some entries) \<Rightarrow>
             distinct (map se_id entries) \<and> sentinel \<notin> set (map se_id entries)
         | CalendarEvents entries \<Rightarrow>
             distinct (map entry_id entries) \<and> sentinel \<notin> set (map entry_id entries)
         | other \<Rightarrow> True))"

text \<open>The references of the detail pages among a list of requests.\<close>

fun detail_refs :: "request list \<Rightarrow> jsstring list" where
  "detail_refs [] = []"
| "detail_refs (AssignmentFromNotice uri c # rs) = uri # detail_refs rs"
| "detail_refs (AssignmentFromCalendar calendarId c # rs) = calendarId # detail_refs rs"
| "detail_refs (r # rs) = detail_refs rs"

section \<open>Example inputs\<close>

text \<open>
  A world in which nothing has happened yet, and surroundings for the examples below.
  The clock stands at 2025-01-01T00:00:00Z (1735689600000); the three calendar entries
  end ten hours before, 49 hours after and 47 hours 59 minutes after that instant.
\<close>

definition empty_world :: world where
  "empty_world =
     \<lparr>cookies = [], requests = [], ticks = 0, logged = [], outbox = [],
      notice_record = [], assignment_record = []\<rparr>"

definition example_lib :: jslib where
  "example_lib =
     \<lparr>date_parse = map_of
        [(js ''2024-12-31T14:00:00.000Z'', 1735653600000),
         (js ''2025-01-03T01:00:00.000Z'', 1735866000000),
         (js ''2025-01-02T23:59:00.000Z'', 1735862340000)],
      to_locale = (\<lambda>t. case t of
                          None \<Rightarrow> js ''Invalid Date''
                        | Some ms \<Rightarrow> if ms = 1735689600000 then js ''2025/1/1 08:00:00''
                                     else if ms = 1735653600000 then js ''2024/12/31 22:00:00''
                                     else if ms = 1735866000000 then js ''2025/1/3 09:00:00''
                                     else js ''2025/1/3 07:59:00'')\<rparr>"

definition calendar_entry_at :: "jsstring \<Rightarrow> jsstring \<Rightarrow> jsstring \<Rightarrow> calendar_entry" where
  "calendar_entry_at ident name end_text =
     \<lparr>entry_id = ident, endDate = end_text, calendarName = name,
      entry_title = js ''Homework'', entry_description = None\<rparr>"

definition entry_past :: calendar_entry where
  "entry_past = calendar_entry_at (js ''_1_1'') (js ''Algebra(24-25)'') (js ''2024-12-31T14:00:00.000Z'')"

definition entry_49h :: calendar_entry where
  "entry_49h = calendar_entry_at (js ''_2_1'') (js ''Algebra(24-25)'') (js ''2025-01-03T01:00:00.000Z'')"

definition entry_47h59 :: calendar_entry where
  "entry_47h59 = calendar_entry_at (js ''_3_1'') (js ''Algebra(24-25)'') (js ''2025-01-02T23:59:00.000Z'')"

text \<open>A network that answers the calendar query with the three entries and every
  other request with a page, and a database that never throws.\<close>

definition calendar_env :: env where
  "calendar_env =
     \<lparr>lib = example_lib,
      server = (\<lambda>n req. case req of
                  SelectedCalendarEvents from to c \<Rightarrow>
                    Inr \<lparr>set_cookie = [],
                         data = CalendarEvents [entry_past, entry_49h, entry_47h59]\<rparr>
                | other \<Rightarrow> Inr \<lparr>set_cookie = [], data = Page (js ''<title>x</title>'')\<rparr>),
      clock = (\<lambda>i. 1735689600000),
      notice_fault = (\<lambda>table r. None),
      assignment_fault = (\<lambda>table r. None),
      hasAttempted = (\<lambda>html. False),
      parseInstruction = (\<lambda>html. [])\<rparr>"

text \<open>Rejection and transport fault, as the specification tells them apart: the identity
  provider answers and does not accept the credentials; or a request of the handshake gets
  no answer (the first one, or the second one after the first was accepted).\<close>

definition iaaa_rejects :: "env \<Rightarrow> jsstring \<Rightarrow> jsstring \<Rightarrow> world \<Rightarrow> bool" where
  "iaaa_rejects e username password w =
     (case server e (length (requests w)) (IAAALogin username password) of
        Inl ex \<Rightarrow> False
      | Inr resp \<Rightarrow> (case data resp of IAAAReply True token \<Rightarrow> False | other \<Rightarrow> True))"

definition transport_fault :: "env \<Rightarrow> jsstring \<Rightarrow> jsstring \<Rightarrow> world \<Rightarrow> bool" where
  "transport_fault e username password w =
     (case server e (length (requests w)) (IAAALogin username password) of
        Inl ex \<Rightarrow> True
      | Inr resp \<Rightarrow>
          (case data resp of
             IAAAReply True token \<Rightarrow>
               isl (server e (Suc (length (requests w))) (CampusLogin token))
           | other \<Rightarrow> False))"

text \<open>An identity provider that rejects every login, and a network that is down.\<close>

definition reject_env :: env where
  "reject_env =
     calendar_env\<lparr>server := (\<lambda>n req. Inr \<lparr>set_cookie = [js ''JSESSIONID=0A1B; Path=/iaaa''],
                                          data = IAAAReply False []\<rparr>)\<rparr>"

definition down_env :: env where
  "down_env = calendar_env\<lparr>server := (\<lambda>n req. Inl (AxiosError (js ''connect ETIMEDOUT'') None))\<rparr>"

text \<open>A database on which the creation of any row with the id \<open>_7_1\<close> throws, and two
  records of each kind.\<close>

definition busy_env :: env where
  "busy_env =
     calendar_env
       \<lparr>notice_fault :=
          (\<lambda>table r. if noticeId (n_record r) = js ''_7_1''
                      then Some (DatabaseError (js ''SQLITE_BUSY'')) else None),
        assignment_fault :=
          (\<lambda>table r. if assignmentId (a_record r) = js ''_7_1''
                      then Some (DatabaseError (js ''SQLITE_BUSY'')) else None)\<rparr>"

definition notice_with_id :: "jsstring \<Rightarrow> NoticeRecord" where
  "notice_with_id ident =
     \<lparr>noticeId = ident, time = js ''2025/1/1 08:00:00'', course = js ''Algebra'',
      title = js ''Homework'', content = [], event = js ''AS:AS_AVAIL'', shouldNotify = True\<rparr>"

definition assignment_with_id :: "jsstring \<Rightarrow> AssignmentRecord" where
  "assignment_with_id ident =
     \<lparr>assignmentId = ident, a_time = js ''2025/1/3 07:59:00'', a_course = js ''Algebra'',
      a_title = js ''Homework'', description = [], a_shouldNotify = True\<rparr>"

text \<open>The configuration that \<open>database.ts\<close> gives a new user.\<close>

definition default_config :: BlackboardWatcherConfig where
  "default_config =
     \<lparr>courseAliases = [], notifyNotice = True,
      noticeTitlePrefix = [0x5B, 0x6559, 0x5B66, 0x7F51, 0x5D],
      generalAllowedEvents = js ''123'', specificCourseEvents = [],
      notifyAssignment = True, calendarAdvanceHours = 24,
      assignmentTitlePrefix = js ''[DDL!]''\<rparr>"

text \<open>A notice feed of one course and the given ids: every entry announces an available
  assignment with a detail page.\<close>

definition notice_entry_with_id :: "jsstring \<Rightarrow> notice_entry" where
  "notice_entry_with_id ident =
     \<lparr>se_id = ident, se_timestamp = 1735689600000, se_courseId = js ''_100_1'',
      se_context = Some (js ''<span>Homework 1 is available</span>: ''),
      se_details = Some (js ''<p>Chapter 1</p>''),
      event_type = Some (js ''AS:AS_AVAIL''),
      se_itemUri = Some (js ''/webapps/assignment/uploadAssignment?content_id=_5_1''),
      dueDate = Some (js ''2025-01-03T01:00:00.000Z'')\<rparr>"

definition feed_env :: "jsstring list \<Rightarrow> env" where
  "feed_env idents =
     calendar_env
       \<lparr>server := (\<lambda>n req. case req of
            StreamViewerLoad c \<Rightarrow>
              Inr \<lparr>set_cookie = [],
                   data = NoticeFeed
                            (Some [\<lparr>course_id = js ''_100_1'',
                                     course_name = js ''Algebra(24-25)''\<rparr>])
                            (Some (map notice_entry_with_id idents))\<rparr>
          | StreamViewerView c \<Rightarrow>
              Inr \<lparr>set_cookie = [js ''JSESSIONID=77AA; Path=/webapps/streamViewer''],
                   data = Page (js ''<html></html>'')\<rparr>
          | other \<Rightarrow> Inr \<lparr>set_cookie = [], data = Page (js ''<title>x</title>'')\<rparr>)\<rparr>"

text \<open>A stand-in for the cipher in the examples: every byte is combined with a byte of the
  key and a byte of the initialization vector by exclusive or.\<close>

definition xor_stream :: "byte list \<Rightarrow> byte list \<Rightarrow> byte list \<Rightarrow> byte list" where
  "xor_stream k iv p =
     map (\<lambda>(i, b). xor (xor b (k ! (i mod 32))) (iv ! (i mod 16))) (enumerate 0 p)"

definition xor_cipher :: aes_cbc where
  "xor_cipher =
     \<lparr>cbc_encrypt = xor_stream, cbc_decrypt = (\<lambda>k iv c. Some (xor_stream k iv c))\<rparr>"

definition example_iv :: "byte list" where
  "example_iv = [0x00, 0x11, 0x22, 0x33, 0x44, 0x55, 0x66, 0x77,
                 0x88, 0x99, 0xAA, 0xBB, 0xCC, 0xDD, 0xEE, 0xFF]"

section \<open>Properties of the HTML extraction\<close>

lemma slice_drop_two: "slice s 0 (- 2) = take (length s - 2) s"
proof -
  have "nat (max (int (length s) - 2) 0) = length s - 2" by arith
  then show ?thesis by (simp add: slice_def slice_index_def Let_def numeral_2_eq_2)
qed

lemma rmatch_no_lt: "0x3C \<notin> set s \<Longrightarrow> rmatch (lit 0x3C # as) s = None"
  by (cases s) (auto simp: lit_def)

lemma remove_all_no_lt: "0x3C \<notin> set s \<Longrightarrow> remove_all (lit 0x3C # as) s = s"
  by (induction s) (auto simp: rmatch_no_lt)

lemma title_text_plain: "0x3C \<notin> set h \<Longrightarrow> title_text h = trim h"
  by (simp add: title_text_def class_region_re_def tag_re_def remove_all_no_lt)

text \<open>
  C10. \<open>parseTitle\<close> always cuts the last two code units of the text that is left after
  the regions and tags are removed and the result is trimmed: nothing checks that a
  trailing artifact is there. A text of at most two code units therefore gives the empty
  string, and an input without any markup (no \<open><\<close> at all) loses the last two code units
  of its trimmed self.
\<close>

theorem parseTitle_cuts_two:
  "parseTitle html = take (length (title_text html) - 2) (title_text html)
   \<and> (length (title_text html) \<le> 2 \<longrightarrow> parseTitle html = [])
   \<and> (0x3C \<notin> set html \<longrightarrow> parseTitle html = take (length (trim html) - 2) (trim html))"
proof -
  have a: "parseTitle html = take (length (title_text html) - 2) (title_text html)"
    by (auto simp: parseTitle_def title_text_def slice_drop_two Let_def trim_def)
  have b: "0x3C \<notin> set html \<Longrightarrow> title_text html = trim html"
    by (rule title_text_plain)
  from a b show ?thesis by simp
qed

theorem parseTitle_cuts_two_witness:
  "length (title_text (js ''ab'')) \<le> 2 \<and> 0x3C \<notin> set (js ''ab'')
   \<and> parseTitle (js ''ab'') = []"
proof -
  have h1: "length (title_text (js ''ab'')) \<le> 2" by code_simp
  have h2: "0x3C \<notin> set (js ''ab'')" by (simp add: js_def)
  from parseTitle_cuts_two [of "js ''ab''"] h1 have "parseTitle (js ''ab'') = []" by blast
  with h1 h2 show ?thesis by blast
qed

section \<open>Properties of the eligibility decision\<close>






section \<open>Properties of the calendar query\<close>

lemma filter_within_fst:
  "fst (filter_within e h entries w) =
     map snd (filter (\<lambda>(i, x). testWithinHours (lib e) (clock e i) (endDate x) h)
                (enumerate (ticks w) entries))"
proof (induction entries arbitrary: w)
  case Nil
  then show ?case by simp
next
  case (Cons x xs)
  show ?case
    using Cons.IH [of "w\<lparr>ticks := Suc (ticks w)\<rparr>"]
    by (simp add: date_now_def case_prod_beta)
qed

text \<open>
  C6, as stated, fails on the code: \<open>testWithinHours\<close> only bounds the end time from
  above. With the clock at 2025-01-01T00:00:00Z and a window of 48 hours, an entry that
  ended ten hours ago, seven hours before the start of the window, is returned.
\<close>

theorem getCalendarData_counterexample:
  "fst (getCalendarData calendar_env 48 empty_world) = Inr [entry_past, entry_47h59]
   \<and> date_parse (lib calendar_env) (endDate entry_past) = Some 1735653600000
   \<and> 1735653600000 < clock calendar_env 0 - 3 * 3600000"
  by code_simp

text \<open>
  C6, amended. When the server answers the windowed query with a list of entries,
  \<open>getCalendarData\<close> returns exactly the entries whose end time is a date and lies at
  most \<open>advanceHours\<close> hours after the reading of the clock taken when the entry is
  tested, in the order of the answer: the upper end of the window is validated again,
  the lower end is not. So with 48 hours an entry 49 hours ahead is left out and one
  47 hours 59 minutes ahead is kept.
\<close>

theorem getCalendarData_window:
  assumes "server e (length (requests w))
             (SelectedCalendarEvents (clock e (ticks w) - 3 * 3600000)
                (clock e (ticks w) + h * 3600000) (generateCookieString w)) = Inr resp"
    and "data resp = CalendarEvents raw"
  shows "fst (getCalendarData e h w) =
     Inr (map snd
           (filter (\<lambda>(i, x). case date_parse (lib e) (endDate x) of
                                None \<Rightarrow> False
                              | Some t \<Rightarrow> t \<le> clock e i + h * 3600000)
              (enumerate (Suc (ticks w)) raw)))"
proof -
  have t: "\<And>l now s. testWithinHours l now s h =
      (case date_parse l s of None \<Rightarrow> False | Some t \<Rightarrow> t \<le> now + h * 3600000)"
    by (auto simp: testWithinHours_def convertToTimestamp_def split: option.splits)
  have g: "generateCookieString (w\<lparr>ticks := Suc (ticks w)\<rparr>) = generateCookieString w"
    by (simp add: generateCookieString_def)
  show ?thesis
    using assms
    by (simp add: getCalendarData_def date_now_def http_def g Let_def extractCookies_def
        filter_within_fst t case_prod_beta)
qed

theorem getCalendarData_window_witness:
  "entry_49h \<notin> set (projr (fst (getCalendarData calendar_env 48 empty_world)))
   \<and> entry_47h59 \<in> set (projr (fst (getCalendarData calendar_env 48 empty_world)))
   \<and> date_parse example_lib (endDate entry_49h) = Some (1735689600000 + 49 * 3600000)
   \<and> date_parse example_lib (endDate entry_47h59)
       = Some (1735689600000 + 47 * 3600000 + 59 * 60000)"
proof -
  let ?resp = "\<lparr>set_cookie = [], data = CalendarEvents [entry_past, entry_49h, entry_47h59]\<rparr>"
  have s: "server calendar_env (length (requests empty_world))
             (SelectedCalendarEvents (clock calendar_env (ticks empty_world) - 3 * 3600000)
                (clock calendar_env (ticks empty_world) + 48 * 3600000)
                (generateCookieString empty_world)) = Inr ?resp"
    by (simp add: calendar_env_def)
  have d: "data ?resp = CalendarEvents [entry_past, entry_49h, entry_47h59]" by simp
  have p1: "date_parse example_lib (endDate entry_past) = Some 1735653600000" by code_simp
  have p2: "date_parse example_lib (endDate entry_49h) = Some 1735866000000" by code_simp
  have p3: "date_parse example_lib (endDate entry_47h59) = Some 1735862340000" by code_simp
  have l: "lib calendar_env = example_lib" "\<And>i. clock calendar_env i = 1735689600000"
    by (simp_all add: calendar_env_def)
  have n: "entry_49h \<noteq> entry_past" "entry_49h \<noteq> entry_47h59"
    by (simp_all add: entry_49h_def entry_past_def entry_47h59_def calendar_entry_at_def js_def)
  have "fst (getCalendarData calendar_env 48 empty_world) = Inr [entry_past, entry_47h59]"
    using getCalendarData_window [OF s d] by (simp add: l p1 p2 p3)
  then show ?thesis using n p2 p3 by simp
qed

section \<open>Properties of the login\<close>

text \<open>
  C9, as stated, fails on the code: \<open>login\<close> throws nothing. Its handler turns whatever
  was thrown into the return value \<open>false\<close>, so a caller gets the same value when the
  identity provider rejects the credentials and when the network is down.
\<close>

theorem login_counterexample:
  "iaaa_rejects reject_env (js ''2800011451'') (js ''pswd1234'') empty_world
   \<and> transport_fault down_env (js ''2800011451'') (js ''pswd1234'') empty_world
   \<and> fst (login reject_env (js ''2800011451'') (js ''pswd1234'') empty_world)
       = fst (login down_env (js ''2800011451'') (js ''pswd1234'') empty_world)"
  by code_simp

text \<open>
  C9, amended. When the identity provider rejects the credentials, and when a request
  of the handshake fails at transport level, \<open>login\<close> returns \<open>false\<close> (in both cases,
  without raising), and the cookies of the session are what they were before the call.
\<close>

theorem login_failure:
  assumes "iaaa_rejects e username password w \<or> transport_fault e username password w"
  shows "fst (login e username password w) = False
         \<and> cookies (snd (login e username password w)) = cookies w"
  using assms
  by (auto simp: login_def http_def login_failed_def log_error_def iaaa_rejects_def
      transport_fault_def split: sum.splits body.splits bool.splits prod.splits)

theorem login_failure_witness:
  "iaaa_rejects reject_env (js ''2800011451'') (js ''pswd1234'') empty_world
   \<and> \<not> fst (login reject_env (js ''2800011451'') (js ''pswd1234'') empty_world)
   \<and> cookies (snd (login reject_env (js ''2800011451'') (js ''pswd1234'') empty_world)) = []"
proof -
  have r: "iaaa_rejects reject_env (js ''2800011451'') (js ''pswd1234'') empty_world"
    by code_simp
  have c: "cookies empty_world = []" by (simp add: empty_world_def)
  from login_failure [of reject_env "js ''2800011451''" "js ''pswd1234''" empty_world] r c
  show ?thesis by simp
qed

section \<open>Properties of the persistence step\<close>

lemma create_notice_rows_prefix:
  "\<exists>k\<le>length rows.
     notice_record (snd (create_notice_rows e rows w)) = notice_record w @ take k rows
     \<and> (\<forall>j<k. notice_fault e (notice_record w @ take j rows) (rows ! j) = None)
     \<and> (k < length rows \<longrightarrow>
          notice_fault e (notice_record w @ take k rows) (rows ! k) \<noteq> None)"
proof (induction rows arbitrary: w)
  case Nil
  then show ?case by simp
next
  case (Cons r rs)
  show ?case
  proof (cases "notice_fault e (notice_record w) r")
    case None
    let ?w = "w\<lparr>notice_record := notice_record w @ [r]\<rparr>"
    from Cons.IH [of ?w]
    obtain k where k: "k \<le> length rs"
      "notice_record (snd (create_notice_rows e rs ?w)) = (notice_record w @ [r]) @ take k rs"
      "\<forall>j<k. notice_fault e ((notice_record w @ [r]) @ take j rs) (rs ! j) = None"
      "k < length rs \<longrightarrow> notice_fault e ((notice_record w @ [r]) @ take k rs) (rs ! k) \<noteq> None"
      by auto
    have all: "\<forall>j<Suc k. notice_fault e (notice_record w @ take j (r # rs)) ((r # rs) ! j) = None"
    proof (intro allI impI)
      fix j assume "j < Suc k"
      then show "notice_fault e (notice_record w @ take j (r # rs)) ((r # rs) ! j) = None"
        using None k(3) by (cases j) auto
    qed
    show ?thesis
      by (rule exI [of _ "Suc k"]) (use None k all in \<open>simp add: create_notice_def\<close>)
  next
    case (Some ex)
    show ?thesis
      by (rule exI [of _ 0]) (use Some in \<open>simp add: create_notice_def\<close>)
  qed
qed

lemma create_assignment_rows_prefix:
  "\<exists>k\<le>length rows.
     assignment_record (snd (create_assignment_rows e rows w)) = assignment_record w @ take k rows
     \<and> (\<forall>j<k. assignment_fault e (assignment_record w @ take j rows) (rows ! j) = None)
     \<and> (k < length rows \<longrightarrow>
          assignment_fault e (assignment_record w @ take k rows) (rows ! k) \<noteq> None)"
proof (induction rows arbitrary: w)
  case Nil
  then show ?case by simp
next
  case (Cons r rs)
  show ?case
  proof (cases "assignment_fault e (assignment_record w) r")
    case None
    let ?w = "w\<lparr>assignment_record := assignment_record w @ [r]\<rparr>"
    from Cons.IH [of ?w]
    obtain k where k: "k \<le> length rs"
      "assignment_record (snd (create_assignment_rows e rs ?w))
         = (assignment_record w @ [r]) @ take k rs"
      "\<forall>j<k. assignment_fault e ((assignment_record w @ [r]) @ take j rs) (rs ! j) = None"
      "k < length rs \<longrightarrow>
         assignment_fault e ((assignment_record w @ [r]) @ take k rs) (rs ! k) \<noteq> None"
      by auto
    have all: "\<forall>j<Suc k.
        assignment_fault e (assignment_record w @ take j (r # rs)) ((r # rs) ! j) = None"
    proof (intro allI impI)
      fix j assume "j < Suc k"
      then show "assignment_fault e (assignment_record w @ take j (r # rs)) ((r # rs) ! j) = None"
        using None k(3) by (cases j) auto
    qed
    show ?thesis
      by (rule exI [of _ "Suc k"]) (use None k all in \<open>simp add: create_assignment_def\<close>)
  next
    case (Some ex)
    show ?thesis
      by (rule exI [of _ 0]) (use Some in \<open>simp add: create_assignment_def\<close>)
  qed
qed

lemma createNoticeRecords_prefix:
  "\<exists>k\<le>length records.
     notice_record (createNoticeRecords e userId records w)
       = notice_record w @ map (notice_row userId (clock e (ticks w))) (take k records)
     \<and> (\<forall>j<k. notice_fault e
                 (notice_record w @ map (notice_row userId (clock e (ticks w))) (take j records))
                 (notice_row userId (clock e (ticks w)) (records ! j)) = None)
     \<and> (k < length records \<longrightarrow>
          notice_fault e
            (notice_record w @ map (notice_row userId (clock e (ticks w))) (take k records))
            (notice_row userId (clock e (ticks w)) (records ! k)) \<noteq> None)"
proof -
  let ?rows = "map (notice_row userId (clock e (ticks w))) records"
  let ?w0 = "w\<lparr>ticks := Suc (ticks w)\<rparr>"
  have t: "notice_record (createNoticeRecords e userId records w)
           = notice_record (snd (create_notice_rows e ?rows ?w0))"
    by (simp add: createNoticeRecords_def date_now_def log_error_def split: prod.splits sum.splits)
  from create_notice_rows_prefix [of ?rows e ?w0]
  obtain k where k: "k \<le> length ?rows"
    "notice_record (snd (create_notice_rows e ?rows ?w0)) = notice_record ?w0 @ take k ?rows"
    "\<forall>j<k. notice_fault e (notice_record ?w0 @ take j ?rows) (?rows ! j) = None"
    "k < length ?rows \<longrightarrow> notice_fault e (notice_record ?w0 @ take k ?rows) (?rows ! k) \<noteq> None"
    by blast
  show ?thesis
    by (rule exI [of _ k]) (use k t in \<open>simp add: take_map\<close>)
qed

lemma createAssignmentRecords_prefix:
  "\<exists>k\<le>length records.
     assignment_record (createAssignmentRecords e userId records w)
       = assignment_record w @ map (assignment_row userId (clock e (ticks w))) (take k records)
     \<and> (\<forall>j<k. assignment_fault e
                 (assignment_record w
                    @ map (assignment_row userId (clock e (ticks w))) (take j records))
                 (assignment_row userId (clock e (ticks w)) (records ! j)) = None)
     \<and> (k < length records \<longrightarrow>
          assignment_fault e
            (assignment_record w
               @ map (assignment_row userId (clock e (ticks w))) (take k records))
            (assignment_row userId (clock e (ticks w)) (records ! k)) \<noteq> None)"
proof -
  let ?rows = "map (assignment_row userId (clock e (ticks w))) records"
  let ?w0 = "w\<lparr>ticks := Suc (ticks w)\<rparr>"
  have t: "assignment_record (createAssignmentRecords e userId records w)
           = assignment_record (snd (create_assignment_rows e ?rows ?w0))"
    by (simp add: createAssignmentRecords_def date_now_def log_error_def
        split: prod.splits sum.splits)
  from create_assignment_rows_prefix [of ?rows e ?w0]
  obtain k where k: "k \<le> length ?rows"
    "assignment_record (snd (create_assignment_rows e ?rows ?w0))
       = assignment_record ?w0 @ take k ?rows"
    "\<forall>j<k. assignment_fault e (assignment_record ?w0 @ take j ?rows) (?rows ! j) = None"
    "k < length ?rows \<longrightarrow>
       assignment_fault e (assignment_record ?w0 @ take k ?rows) (?rows ! k) \<noteq> None"
    by blast
  show ?thesis
    by (rule exI [of _ k]) (use k t in \<open>simp add: take_map\<close>)
qed

text \<open>
  C1, as stated, fails on the code: the loop over the batch is inside one \<open>try\<close>, so the
  first record on which \<open>create\<close> throws ends the loop. In a batch of two records where
  the database throws on the first, the second is not persisted, although the database
  would take it. The same holds for both tables.
\<close>

theorem createRecords_counterexample:
  "notice_fault busy_env [] (notice_row (js ''u1'') 1735689600000 (notice_with_id (js ''_8_1'')))
     = None
   \<and> notice_record
       (createNoticeRecords busy_env (js ''u1'')
          [notice_with_id (js ''_7_1''), notice_with_id (js ''_8_1'')] empty_world) = []
   \<and> assignment_fault busy_env []
       (assignment_row (js ''u1'') 1735689600000 (assignment_with_id (js ''_8_1''))) = None
   \<and> assignment_record
       (createAssignmentRecords busy_env (js ''u1'')
          [assignment_with_id (js ''_7_1''), assignment_with_id (js ''_8_1'')] empty_world) = []"
  by code_simp

text \<open>
  C1, amended. For every batch handed to the persistence step, of either table, the
  records are created in order up to the first record on which the database throws:
  there is a number \<open>k\<close> such that exactly the first \<open>k\<close> records of the batch are
  appended to the table, the database took each of them, and, when \<open>k\<close> is less than the
  size of the batch, the database threw on record \<open>k\<close>. A failure does not undo the records
  before it and is not passed on to the caller (it is logged); the records after it are
  not attempted.
\<close>

theorem createRecords_stop_at_first_failure:
  "(\<exists>k\<le>length ns.
      notice_record (createNoticeRecords e userId ns w)
        = notice_record w @ map (notice_row userId (clock e (ticks w))) (take k ns)
      \<and> (\<forall>j<k. notice_fault e
                  (notice_record w @ map (notice_row userId (clock e (ticks w))) (take j ns))
                  (notice_row userId (clock e (ticks w)) (ns ! j)) = None)
      \<and> (k < length ns \<longrightarrow>
           notice_fault e
             (notice_record w @ map (notice_row userId (clock e (ticks w))) (take k ns))
             (notice_row userId (clock e (ticks w)) (ns ! k)) \<noteq> None))
   \<and> (\<exists>k\<le>length as.
      assignment_record (createAssignmentRecords e userId as w)
        = assignment_record w @ map (assignment_row userId (clock e (ticks w))) (take k as)
      \<and> (\<forall>j<k. assignment_fault e
                  (assignment_record w
                     @ map (assignment_row userId (clock e (ticks w))) (take j as))
                  (assignment_row userId (clock e (ticks w)) (as ! j)) = None)
      \<and> (k < length as \<longrightarrow>
           assignment_fault e
             (assignment_record w
                @ map (assignment_row userId (clock e (ticks w))) (take k as))
             (assignment_row userId (clock e (ticks w)) (as ! k)) \<noteq> None))"
  using createNoticeRecords_prefix [of ns e userId w]
    createAssignmentRecords_prefix [of as e userId w]
  by blast

theorem createRecords_stop_at_first_failure_witness:
  "notice_record
     (createNoticeRecords busy_env (js ''u1'')
        [notice_with_id (js ''_8_1''), notice_with_id (js ''_7_1''), notice_with_id (js ''_9_1'')]
        empty_world)
     = [notice_row (js ''u1'') 1735689600000 (notice_with_id (js ''_8_1''))]
   \<and> assignment_record
     (createAssignmentRecords busy_env (js ''u1'')
        [assignment_with_id (js ''_8_1''), assignment_with_id (js ''_7_1''),
         assignment_with_id (js ''_9_1'')]
        empty_world)
     = [assignment_row (js ''u1'') 1735689600000 (assignment_with_id (js ''_8_1''))]"
proof -
  let ?u = "js ''u1''"
  let ?ns = "[notice_with_id (js ''_8_1''), notice_with_id (js ''_7_1''),
              notice_with_id (js ''_9_1'')]"
  let ?as = "[assignment_with_id (js ''_8_1''), assignment_with_id (js ''_7_1''),
              assignment_with_id (js ''_9_1'')]"
  have c: "clock busy_env (ticks empty_world) = 1735689600000"
    "notice_record empty_world = []" "assignment_record empty_world = []"
    by (simp_all add: busy_env_def calendar_env_def empty_world_def)
  have nf: "\<And>t x. notice_fault busy_env t (notice_row ?u 1735689600000 (notice_with_id x))
        = (if x = js ''_7_1'' then Some (DatabaseError (js ''SQLITE_BUSY'')) else None)"
    by (simp add: busy_env_def calendar_env_def notice_row_def notice_with_id_def)
  have af: "\<And>t x. assignment_fault busy_env t
          (assignment_row ?u 1735689600000 (assignment_with_id x))
        = (if x = js ''_7_1'' then Some (DatabaseError (js ''SQLITE_BUSY'')) else None)"
    by (simp add: busy_env_def calendar_env_def assignment_row_def assignment_with_id_def)
  have d: "js ''_8_1'' \<noteq> js ''_7_1''" by (simp add: js_def)
  let ?T = "clock busy_env (ticks empty_world)"
  note inst = createRecords_stop_at_first_failure [of ?ns busy_env ?u empty_world ?as]
  from inst [THEN conjunct1]
  obtain k where k0: "k \<le> length ?ns"
    "notice_record (createNoticeRecords busy_env ?u ?ns empty_world)
       = notice_record empty_world @ map (notice_row ?u ?T) (take k ?ns)"
    "\<forall>j<k. notice_fault busy_env
             (notice_record empty_world @ map (notice_row ?u ?T) (take j ?ns))
             (notice_row ?u ?T (?ns ! j)) = None"
    "k < length ?ns \<longrightarrow> notice_fault busy_env
             (notice_record empty_world @ map (notice_row ?u ?T) (take k ?ns))
             (notice_row ?u ?T (?ns ! k)) \<noteq> None"
    by blast
  from inst [THEN conjunct2]
  obtain m where m0: "m \<le> length ?as"
    "assignment_record (createAssignmentRecords busy_env ?u ?as empty_world)
       = assignment_record empty_world @ map (assignment_row ?u ?T) (take m ?as)"
    "\<forall>j<m. assignment_fault busy_env
             (assignment_record empty_world @ map (assignment_row ?u ?T) (take j ?as))
             (assignment_row ?u ?T (?as ! j)) = None"
    "m < length ?as \<longrightarrow> assignment_fault busy_env
             (assignment_record empty_world @ map (assignment_row ?u ?T) (take m ?as))
             (assignment_row ?u ?T (?as ! m)) \<noteq> None"
    by blast
  note k = k0 [unfolded c] and m = m0 [unfolded c]
  have k1: "k = 1"
  proof -
    have "k \<noteq> 0"
    proof
      assume z: "k = 0"
      from k(4) show False by (simp add: z nf d)
    qed
    moreover have "\<not> 1 < k"
    proof
      assume "1 < k"
      from k(3) [rule_format, of 1, OF this] show False by (simp add: nf)
    qed
    ultimately show ?thesis by simp
  qed
  have m1: "m = 1"
  proof -
    have "m \<noteq> 0"
    proof
      assume z: "m = 0"
      from m(4) show False by (simp add: z af d)
    qed
    moreover have "\<not> 1 < m"
    proof
      assume "1 < m"
      from m(3) [rule_format, of 1, OF this] show False by (simp add: af)
    qed
    ultimately show ?thesis by simp
  qed
  show ?thesis using k(2) m(2) by (simp add: k1 m1)
qed

section \<open>What the operations of a pass leave unchanged\<close>

lemma detail_refs_append: "detail_refs (xs @ ys) = detail_refs xs @ detail_refs ys"
  by (induction xs rule: detail_refs.induct) simp_all

lemma getNoticeData_frame:
  "outbox (snd (getNoticeData e w)) = outbox w"
  "notice_record (snd (getNoticeData e w)) = notice_record w"
  "assignment_record (snd (getNoticeData e w)) = assignment_record w"
  "detail_refs (requests (snd (getNoticeData e w))) = detail_refs (requests w)"
  by (simp_all add: getNoticeData_def http_def notice_data_failed_def log_error_def
      extractCookies_def Let_def detail_refs_append split: sum.splits)

lemma getAssignmentFromNotice_frame:
  "outbox (snd (getAssignmentFromNotice e uri w)) = outbox w"
  "notice_record (snd (getAssignmentFromNotice e uri w)) = notice_record w"
  "assignment_record (snd (getAssignmentFromNotice e uri w)) = assignment_record w"
  "detail_refs (requests (snd (getAssignmentFromNotice e uri w))) = detail_refs (requests w) @ [uri]"
  by (simp_all add: getAssignmentFromNotice_def http_def extractCookies_def detail_refs_append
      split: sum.splits)

lemma getAssignmentFromCalendar_frame:
  "outbox (snd (getAssignmentFromCalendar e i w)) = outbox w"
  "notice_record (snd (getAssignmentFromCalendar e i w)) = notice_record w"
  "assignment_record (snd (getAssignmentFromCalendar e i w)) = assignment_record w"
  "detail_refs (requests (snd (getAssignmentFromCalendar e i w))) = detail_refs (requests w) @ [i]"
  by (simp_all add: getAssignmentFromCalendar_def http_def extractCookies_def detail_refs_append
      split: sum.splits)

lemma filterNoticeInfo_frame:
  "outbox (snd (filterNoticeInfo e config entry d isInit w)) = outbox w"
  "notice_record (snd (filterNoticeInfo e config entry d isInit w)) = notice_record w"
  "assignment_record (snd (filterNoticeInfo e config entry d isInit w)) = assignment_record w"
  "noticeId (fst (filterNoticeInfo e config entry d isInit w)) = se_id entry"
  using getAssignmentFromNotice_frame [of e "or_empty (se_itemUri entry)" w]
  by (auto simp: filterNoticeInfo_def Let_def log_error_def split: prod.splits sum.splits body.splits)

lemma filterNoticeInfo_init:
  "isInit \<Longrightarrow> snd (filterNoticeInfo e config entry d isInit w) = w"
  by (simp add: filterNoticeInfo_def Let_def)

lemma collect_notices_frame:
  "outbox (snd (collect_notices e config d isInit old entries w)) = outbox w"
  "notice_record (snd (collect_notices e config d isInit old entries w)) = notice_record w"
  "assignment_record (snd (collect_notices e config d isInit old entries w)) = assignment_record w"
  "map noticeId (fst (collect_notices e config d isInit old entries w))
     = filter (\<lambda>i. i \<notin> set old) (map se_id entries)"
proof (induction entries arbitrary: w)
  case Nil
  { case 1 show ?case by simp }
  { case 2 show ?case by simp }
  { case 3 show ?case by simp }
  { case 4 show ?case by simp }
next
  case (Cons x xs)
  { case 1 show ?case using Cons.IH(1) by (simp add: case_prod_beta filterNoticeInfo_frame) }
  { case 2 show ?case using Cons.IH(2) by (simp add: case_prod_beta filterNoticeInfo_frame) }
  { case 3 show ?case using Cons.IH(3) by (simp add: case_prod_beta filterNoticeInfo_frame) }
  { case 4 show ?case using Cons.IH(4) by (simp add: case_prod_beta filterNoticeInfo_frame) }
qed

lemma collect_notices_init:
  "isInit \<Longrightarrow> snd (collect_notices e config d isInit old entries w) = w"
  by (induction entries arbitrary: w) (simp_all add: case_prod_beta filterNoticeInfo_init)

lemma notify_notices_frame:
  "notice_record (notify_notices config rs w) = notice_record w"
  "assignment_record (notify_notices config rs w) = assignment_record w"
  "requests (notify_notices config rs w) = requests w"
  by (induction rs arbitrary: w) (simp_all add: notifyNotice_def send_def Let_def)

lemma filter_within_snd: "snd (filter_within e h entries w) = w\<lparr>ticks := ticks w + length entries\<rparr>"
proof (induction entries arbitrary: w)
  case Nil
  then show ?case by simp
next
  case (Cons x xs)
  show ?case
    using Cons.IH [of "w\<lparr>ticks := Suc (ticks w)\<rparr>"]
    by (simp add: date_now_def case_prod_beta)
qed

lemma getCalendarData_frame:
  "outbox (snd (getCalendarData e h w)) = outbox w"
  "notice_record (snd (getCalendarData e h w)) = notice_record w"
  "assignment_record (snd (getCalendarData e h w)) = assignment_record w"
  "detail_refs (requests (snd (getCalendarData e h w))) = detail_refs (requests w)"
  by (simp_all add: getCalendarData_def http_def calendar_data_failed_def log_error_def
      extractCookies_def Let_def detail_refs_append date_now_def case_prod_beta filter_within_snd
      split: sum.splits body.splits)

lemma filterAssignmentInfo_frame:
  "outbox (snd (filterAssignmentInfo e entry w)) = outbox w"
  "notice_record (snd (filterAssignmentInfo e entry w)) = notice_record w"
  "assignment_record (snd (filterAssignmentInfo e entry w)) = assignment_record w"
  "assignmentId (fst (filterAssignmentInfo e entry w)) = entry_id entry"
  "detail_refs (requests (snd (filterAssignmentInfo e entry w)))
     = detail_refs (requests w)
       @ (if remove_first suffix_re (calendarName entry) \<noteq> personal then [entry_id entry] else [])"
  using getAssignmentFromCalendar_frame [of e "entry_id entry" w]
  by (auto simp: filterAssignmentInfo_def Let_def log_error_def
      split: prod.splits sum.splits body.splits)

lemma collect_assignments_frame:
  "outbox (snd (collect_assignments e old entries w)) = outbox w"
  "notice_record (snd (collect_assignments e old entries w)) = notice_record w"
  "assignment_record (snd (collect_assignments e old entries w)) = assignment_record w"
  "map assignmentId (fst (collect_assignments e old entries w))
     = filter (\<lambda>i. i \<notin> set old) (map entry_id entries)"
  "detail_refs (requests (snd (collect_assignments e old entries w)))
     = detail_refs (requests w)
       @ map entry_id
           (filter (\<lambda>x. entry_id x \<notin> set old
                        \<and> remove_first suffix_re (calendarName x) \<noteq> personal) entries)"
proof (induction entries arbitrary: w)
  case Nil
  { case 1 show ?case by simp }
  { case 2 show ?case by simp }
  { case 3 show ?case by simp }
  { case 4 show ?case by simp }
  { case 5 show ?case by simp }
next
  case (Cons x xs)
  { case 1 show ?case using Cons.IH(1) by (simp add: case_prod_beta filterAssignmentInfo_frame) }
  { case 2 show ?case using Cons.IH(2) by (simp add: case_prod_beta filterAssignmentInfo_frame) }
  { case 3 show ?case using Cons.IH(3) by (simp add: case_prod_beta filterAssignmentInfo_frame) }
  { case 4 show ?case using Cons.IH(4) by (simp add: case_prod_beta filterAssignmentInfo_frame) }
  { case 5 show ?case using Cons.IH(5) by (simp add: case_prod_beta filterAssignmentInfo_frame) }
qed

lemma notify_assignments_frame:
  "notice_record (notify_assignments config rs w) = notice_record w"
  "assignment_record (notify_assignments config rs w) = assignment_record w"
  "requests (notify_assignments config rs w) = requests w"
  by (induction rs arbitrary: w) (simp_all add: notifyAssignment_def send_def Let_def)

lemma create_notice_rows_frame:
  "outbox (snd (create_notice_rows e rows w)) = outbox w"
  "requests (snd (create_notice_rows e rows w)) = requests w"
  "assignment_record (snd (create_notice_rows e rows w)) = assignment_record w"
  by (induction rows arbitrary: w) (simp_all add: create_notice_def split: option.splits)

lemma create_assignment_rows_frame:
  "outbox (snd (create_assignment_rows e rows w)) = outbox w"
  "requests (snd (create_assignment_rows e rows w)) = requests w"
  "notice_record (snd (create_assignment_rows e rows w)) = notice_record w"
  by (induction rows arbitrary: w) (simp_all add: create_assignment_def split: option.splits)

lemma createNoticeRecords_frame:
  "outbox (createNoticeRecords e u rs w) = outbox w"
  "requests (createNoticeRecords e u rs w) = requests w"
  "assignment_record (createNoticeRecords e u rs w) = assignment_record w"
  using create_notice_rows_frame [of e "map (notice_row u (clock e (ticks w))) rs"
      "w\<lparr>ticks := Suc (ticks w)\<rparr>"]
  by (auto simp: createNoticeRecords_def date_now_def log_error_def case_prod_beta
      split: sum.splits)

lemma createAssignmentRecords_frame:
  "outbox (createAssignmentRecords e u rs w) = outbox w"
  "requests (createAssignmentRecords e u rs w) = requests w"
  "notice_record (createAssignmentRecords e u rs w) = notice_record w"
  using create_assignment_rows_frame [of e "map (assignment_row u (clock e (ticks w))) rs"
      "w\<lparr>ticks := Suc (ticks w)\<rparr>"]
  by (auto simp: createAssignmentRecords_def date_now_def log_error_def case_prod_beta
      split: sum.splits)

lemma save_notices_frame:
  "outbox (save_notices e u rs w) = outbox w"
  "requests (save_notices e u rs w) = requests w"
  "assignment_record (save_notices e u rs w) = assignment_record w"
  by (simp_all add: save_notices_def createNoticeRecords_frame)

lemma save_assignments_frame:
  "outbox (save_assignments e u rs w) = outbox w"
  "requests (save_assignments e u rs w) = requests w"
  "notice_record (save_assignments e u rs w) = notice_record w"
  by (simp_all add: save_assignments_def createAssignmentRecords_frame)

lemma notice_ids_cong: "notice_record w' = notice_record w \<Longrightarrow> notice_ids w' u = notice_ids w u"
  by (simp add: notice_ids_def getNoticeRecords_def)

lemma assignment_ids_cong:
  "assignment_record w' = assignment_record w \<Longrightarrow> assignment_ids w' u = assignment_ids w u"
  by (simp add: assignment_ids_def getAssignmentRecords_def)

lemma notice_process_first_run:
  assumes "getNoticeData e w = (Inr nd, w1)" and "sentinel \<notin> set (notice_ids w1 u)"
  shows "notice_process e config u w =
     (let c = collect_notices e config (course_dict (courses_of nd)) True (notice_ids w1 u)
                (stream_entries_of nd) w1;
          w2 = send (NoticeInitialized (length (fst c))) (snd c)
      in save_notices e u
           (fst c @ [notice_init_record (convertToTime (lib e) (clock e (ticks w2)))])
           (w2\<lparr>ticks := Suc (ticks w2)\<rparr>))"
  unfolding notice_process_def assms(1) Let_def date_now_def
  using assms(2) by (simp add: case_prod_beta)






lemma notice_rows_of_user:
  "map (\<lambda>r. noticeId (n_record r)) (filter (\<lambda>r. n_userId r = u') (map (notice_row u t) rs))
     = (if u' = u then map noticeId rs else [])"
  by (induction rs) (auto simp: notice_row_def)

lemma assignment_rows_of_user:
  "map (\<lambda>r. assignmentId (a_record r))
       (filter (\<lambda>r. a_userId r = u') (map (assignment_row u t) rs))
     = (if u' = u then map assignmentId rs else [])"
  by (induction rs) (auto simp: assignment_row_def)

lemma notice_ids_append:
  assumes "notice_record w' = notice_record w @ map (notice_row u t) rs"
  shows "notice_ids w' u' = notice_ids w u' @ (if u' = u then map noticeId rs else [])"
  unfolding notice_ids_def getNoticeRecords_def assms
  by (simp only: filter_append map_append notice_rows_of_user)

lemma assignment_ids_append:
  assumes "assignment_record w' = assignment_record w @ map (assignment_row u t) rs"
  shows "assignment_ids w' u' = assignment_ids w u' @ (if u' = u then map assignmentId rs else [])"
  unfolding assignment_ids_def getAssignmentRecords_def assms
  by (simp only: filter_append map_append assignment_rows_of_user)



lemma notice_first_run_no_detail:
  assumes "sentinel \<notin> set (notice_ids w u)"
  shows "detail_refs (requests (notice_process e config u w)) = detail_refs (requests w)"
proof (cases "fst (getNoticeData e w)")
  case (Inl ex)
  then obtain w1 where g: "getNoticeData e w = (Inl ex, w1)"
    by (cases "getNoticeData e w") auto
  have "detail_refs (requests w1) = detail_refs (requests w)"
    using getNoticeData_frame(4) [of e w] by (simp add: g)
  then show ?thesis by (simp add: notice_process_def g send_def)
next
  case (Inr nd)
  then obtain w1 where g: "getNoticeData e w = (Inr nd, w1)"
    by (cases "getNoticeData e w") auto
  have r1: "detail_refs (requests w1) = detail_refs (requests w)"
    using getNoticeData_frame(4) [of e w] by (simp add: g)
  have n1: "notice_ids w1 u = notice_ids w u"
  proof (rule notice_ids_cong)
    show "notice_record w1 = notice_record w"
      using getNoticeData_frame(2) [of e w] by (simp add: g)
  qed
  have s: "sentinel \<notin> set (notice_ids w1 u)" using assms by (simp add: n1)
  show ?thesis
    unfolding notice_process_first_run [OF g s] Let_def save_notices_frame(2)
    by (simp add: send_def collect_notices_init r1)
qed

lemma calendar_process_success:
  assumes "0 < calendarAdvanceHours config"
    and "getCalendarData e (calendarAdvanceHours config) w = (Inr es, w1)"
  shows "calendar_process e config u w =
     (let c = collect_assignments e (assignment_ids w1 u) es w1
      in if sentinel \<notin> set (assignment_ids w1 u)
         then save_assignments e u
                (fst c @ [assignment_init_record
                            (convertToTime (lib e) (clock e (ticks (send CalendarInitialized (snd c)))))])
                ((send CalendarInitialized (snd c))
                   \<lparr>ticks := Suc (ticks (send CalendarInitialized (snd c)))\<rparr>)
         else save_assignments e u (fst c) (notify_assignments config (fst c) (snd c)))"
  unfolding calendar_process_def assms(2) Let_def date_now_def
  using assms(1) by (simp add: case_prod_beta)

lemma calendar_detail_requests:
  assumes "0 < calendarAdvanceHours config"
    and "fst (getCalendarData e (calendarAdvanceHours config) w) = Inr es"
  shows "detail_refs (requests (calendar_process e config u w))
         = detail_refs (requests w)
           @ map entry_id
               (filter (\<lambda>x. entry_id x \<notin> set (assignment_ids w u)
                            \<and> remove_first suffix_re (calendarName x) \<noteq> personal) es)"
proof -
  obtain w1 where g: "getCalendarData e (calendarAdvanceHours config) w = (Inr es, w1)"
    using assms(2) by (cases "getCalendarData e (calendarAdvanceHours config) w") auto
  have r1: "detail_refs (requests w1) = detail_refs (requests w)"
    using getCalendarData_frame(4) [of e "calendarAdvanceHours config" w] by (simp add: g)
  have n1: "assignment_ids w1 u = assignment_ids w u"
  proof (rule assignment_ids_cong)
    show "assignment_record w1 = assignment_record w"
      using getCalendarData_frame(3) [of e "calendarAdvanceHours config" w] by (simp add: g)
  qed
  show ?thesis
    unfolding calendar_process_success [OF assms(1) g] Let_def n1
    by (simp add: save_assignments_frame(2) notify_assignments_frame(3) send_def
        collect_assignments_frame(5) r1)
qed

section \<open>Properties of the first run\<close>




text \<open>
  C8, as stated, fails on the code for the calendar feed: \<open>filterAssignmentInfo\<close> does
  not know whether the run is the first one, and fetches the attempt page of every new
  entry whose calendar is not the personal one. In the first calendar pass below the page
  of the entry \<open>_1_1\<close> is fetched.
\<close>

theorem first_run_enrichment_counterexample:
  "sentinel \<notin> set (assignment_ids empty_world (js ''u1''))
   \<and> detail_refs (requests (calendar_process calendar_env default_config (js ''u1'') empty_world))
       = [js ''_1_1'']"
  by code_simp

text \<open>
  C8, amended. In a first run of the notice feed no detail page is fetched, whatever the
  entries and their eligibility. A run of the calendar feed that gets its entries, first
  or not, fetches the attempt page of each new entry whose calendar is not the personal
  one, in the order of the feed, and no other detail page.
\<close>

theorem first_run_enrichment:
  "(sentinel \<notin> set (notice_ids w u) \<longrightarrow>
      detail_refs (requests (notice_process e config u w)) = detail_refs (requests w))
   \<and> (0 < calendarAdvanceHours config
       \<and> fst (getCalendarData e (calendarAdvanceHours config) w) = Inr es \<longrightarrow>
      detail_refs (requests (calendar_process e config u w))
        = detail_refs (requests w)
          @ map entry_id
              (filter (\<lambda>x. entry_id x \<notin> set (assignment_ids w u)
                           \<and> remove_first suffix_re (calendarName x) \<noteq> personal) es))"
  using notice_first_run_no_detail [of w u e config]
    calendar_detail_requests [of config e w es u]
  by blast

theorem first_run_enrichment_witness:
  "detail_refs (requests (notice_process (feed_env [js ''_1_1'', js ''_2_1'']) default_config
                            (js ''u1'') empty_world)) = []
   \<and> detail_refs (requests (calendar_process calendar_env default_config (js ''u1'') empty_world))
       = [js ''_1_1'']"
proof -
  let ?e = "feed_env [js ''_1_1'', js ''_2_1'']"
  let ?u = "js ''u1''"
  have h2: "sentinel \<notin> set (notice_ids empty_world ?u)" by code_simp
  have h4: "0 < calendarAdvanceHours default_config" by (simp add: default_config_def)
  have h5: "fst (getCalendarData calendar_env (calendarAdvanceHours default_config) empty_world)
              = Inr [entry_past]" by code_simp
  have r: "detail_refs (requests empty_world) = []" by (simp add: empty_world_def)
  have f: "map entry_id
              (filter (\<lambda>x. entry_id x \<notin> set (assignment_ids empty_world ?u)
                           \<and> remove_first suffix_re (calendarName x) \<noteq> personal) [entry_past])
           = [js ''_1_1'']" by code_simp
  from first_run_enrichment [where w = empty_world and u = ?u and e = ?e
      and config = default_config, THEN conjunct1, rule_format, OF h2] r
  have a: "detail_refs (requests (notice_process ?e default_config ?u empty_world)) = []"
    by simp
  from first_run_enrichment [where w = empty_world and u = ?u and e = calendar_env
      and config = default_config and es = "[entry_past]", THEN conjunct2, rule_format,
      OF conjI [OF h4 h5]] r f
  have b: "detail_refs (requests (calendar_process calendar_env default_config ?u empty_world))
             = [js ''_1_1'']"
    by simp
  from a b show ?thesis by simp
qed

section \<open>The ledger over sequences of passes\<close>

lemma getNoticeData_from_server:
  assumes "fst (getNoticeData e w) = Inr nd"
  shows "\<exists>n req resp. server e n req = Inr resp \<and> data resp = nd"
  using assms
  by (fastforce simp: getNoticeData_def http_def notice_data_failed_def Let_def
      split: sum.splits)

lemma notice_feed_distinct:
  assumes "distinct_feeds e" and "fst (getNoticeData e w) = Inr nd"
  shows "distinct (map se_id (stream_entries_of nd))"
    and "sentinel \<notin> set (map se_id (stream_entries_of nd))"
proof -
  from getNoticeData_from_server [OF assms(2)]
  obtain n req resp where s: "server e n req = Inr resp" "data resp = nd" by blast
  from assms(1) s(1)
  have "case data resp of
           NoticeFeed courseList (Some entries) \<Rightarrow>
             distinct (map se_id entries) \<and> sentinel \<notin> set (map se_id entries)
         | NoticeFeed courseList None \<Rightarrow> True
         | CalendarEvents entries \<Rightarrow>
             distinct (map entry_id entries) \<and> sentinel \<notin> set (map entry_id entries)
         | other \<Rightarrow> True"
    unfolding distinct_feeds_def by blast
  then show "distinct (map se_id (stream_entries_of nd))"
    and "sentinel \<notin> set (map se_id (stream_entries_of nd))"
    unfolding s(2) stream_entries_of_def by (auto split: body.splits option.splits)
qed

lemma filter_within_subset: "set (fst (filter_within e h xs w)) \<subseteq> set xs"
proof (induction xs arbitrary: w)
  case Nil
  then show ?case by simp
next
  case (Cons x xs)
  show ?case
    using Cons.IH [of "snd (date_now e w)"]
    by (auto simp: case_prod_beta)
qed

lemma filter_within_distinct:
  "distinct (map f xs) \<Longrightarrow> distinct (map f (fst (filter_within e h xs w)))"
proof (induction xs arbitrary: w)
  case Nil
  then show ?case by simp
next
  case (Cons x xs)
  have "f x \<notin> f ` set (fst (filter_within e h xs (snd (date_now e w))))"
    using Cons.prems filter_within_subset [of e h xs "snd (date_now e w)"] by auto
  then show ?case
    using Cons.IH [of "snd (date_now e w)"] Cons.prems
    by (simp add: case_prod_beta)
qed

lemma getCalendarData_from_server:
  assumes "fst (getCalendarData e h w) = Inr es"
  shows "\<exists>n req resp raw w2. server e n req = Inr resp \<and> data resp = CalendarEvents raw
           \<and> es = fst (filter_within e h raw w2)"
  using assms
  by (fastforce simp: getCalendarData_def http_def calendar_data_failed_def Let_def
      date_now_def case_prod_beta split: sum.splits body.splits)

lemma calendar_feed_distinct:
  assumes "distinct_feeds e" and "fst (getCalendarData e h w) = Inr es"
  shows "distinct (map entry_id es)" and "sentinel \<notin> set (map entry_id es)"
proof -
  from getCalendarData_from_server [OF assms(2)]
  obtain n req resp raw w2 where s: "server e n req = Inr resp" "data resp = CalendarEvents raw"
    "es = fst (filter_within e h raw w2)" by blast
  from assms(1) s(1)
  have "case data resp of
           NoticeFeed courseList (Some entries) \<Rightarrow>
             distinct (map se_id entries) \<and> sentinel \<notin> set (map se_id entries)
         | NoticeFeed courseList None \<Rightarrow> True
         | CalendarEvents entries \<Rightarrow>
             distinct (map entry_id entries) \<and> sentinel \<notin> set (map entry_id entries)
         | other \<Rightarrow> True"
    unfolding distinct_feeds_def by blast
  then have r: "distinct (map entry_id raw)" "sentinel \<notin> set (map entry_id raw)"
    unfolding s(2) by simp_all
  show "distinct (map entry_id es)"
    unfolding s(3) by (rule filter_within_distinct [OF r(1)])
  show "sentinel \<notin> set (map entry_id es)"
    using r(2) filter_within_subset [of e h raw w2] unfolding s(3) by auto
qed

lemma save_notices_ext:
  "\<exists>k. notice_record (save_notices e u batch w)
         = notice_record w @ map (notice_row u (clock e (ticks w))) (take k batch)"
proof (cases "length batch > 0")
  case True
  from createNoticeRecords_prefix [of batch e u w]
  show ?thesis unfolding save_notices_def using True by auto
next
  case False
  show ?thesis
    by (rule exI [of _ 0]) (use False in \<open>simp add: save_notices_def\<close>)
qed

lemma save_assignments_ext:
  "\<exists>k. assignment_record (save_assignments e u batch w)
         = assignment_record w @ map (assignment_row u (clock e (ticks w))) (take k batch)"
proof (cases "length batch > 0")
  case True
  from createAssignmentRecords_prefix [of batch e u w]
  show ?thesis unfolding save_assignments_def using True by auto
next
  case False
  show ?thesis
    by (rule exI [of _ 0]) (use False in \<open>simp add: save_assignments_def\<close>)
qed

lemma notice_process_success:
  assumes "getNoticeData e w = (Inr nd, w1)"
  shows "notice_process e config u w =
     (let c = collect_notices e config (course_dict (courses_of nd))
                (sentinel \<notin> set (notice_ids w1 u)) (notice_ids w1 u) (stream_entries_of nd) w1
      in if sentinel \<notin> set (notice_ids w1 u)
         then save_notices e u
                (fst c @ [notice_init_record
                   (convertToTime (lib e)
                      (clock e (ticks (send (NoticeInitialized (length (fst c))) (snd c)))))])
                ((send (NoticeInitialized (length (fst c))) (snd c))
                   \<lparr>ticks := Suc (ticks (send (NoticeInitialized (length (fst c))) (snd c)))\<rparr>)
         else save_notices e u (fst c) (notify_notices config (fst c) (snd c)))"
  unfolding notice_process_def assms Let_def date_now_def
  by (simp add: case_prod_beta)

lemma notice_process_shape:
  "\<exists>batch k t.
     notice_record (notice_process e config u w)
       = notice_record w @ map (notice_row u t) (take k batch)
     \<and> (batch = [] \<or>
         (\<exists>nd. fst (getNoticeData e w) = Inr nd
            \<and> map noticeId batch
                = filter (\<lambda>i. i \<notin> set (notice_ids w u)) (map se_id (stream_entries_of nd))
                  @ (if sentinel \<in> set (notice_ids w u) then [] else [sentinel])))"
proof (cases "fst (getNoticeData e w)")
  case (Inl ex)
  then obtain w1 where g: "getNoticeData e w = (Inl ex, w1)"
    by (cases "getNoticeData e w") auto
  have "notice_record w1 = notice_record w"
    using getNoticeData_frame(2) [of e w] by (simp add: g)
  then have "notice_record (notice_process e config u w) = notice_record w"
    by (simp add: notice_process_def g send_def)
  then show ?thesis by (intro exI [of _ "[]"]) simp
next
  case (Inr nd)
  then obtain w1 where g: "getNoticeData e w = (Inr nd, w1)"
    by (cases "getNoticeData e w") auto
  have t1: "notice_record w1 = notice_record w"
    using getNoticeData_frame(2) [of e w] by (simp add: g)
  have n1: "notice_ids w1 u = notice_ids w u" by (rule notice_ids_cong [OF t1])
  let ?init = "sentinel \<notin> set (notice_ids w u)"
  let ?c = "collect_notices e config (course_dict (courses_of nd)) ?init (notice_ids w u)
              (stream_entries_of nd) w1"
  have ids: "map noticeId (fst ?c)
               = filter (\<lambda>i. i \<notin> set (notice_ids w u)) (map se_id (stream_entries_of nd))"
    by (rule collect_notices_frame(4))
  have tc: "notice_record (snd ?c) = notice_record w"
    by (simp add: collect_notices_frame(2) t1)
  show ?thesis
  proof (cases ?init)
    case True
    let ?w2 = "send (NoticeInitialized (length (fst ?c))) (snd ?c)"
    let ?w3 = "?w2\<lparr>ticks := Suc (ticks ?w2)\<rparr>"
    let ?batch = "fst ?c @ [notice_init_record (convertToTime (lib e) (clock e (ticks ?w2)))]"
    have p: "notice_process e config u w = save_notices e u ?batch ?w3"
      unfolding notice_process_success [OF g] Let_def n1 using True by simp
    from save_notices_ext [of e u ?batch ?w3]
    obtain k where "notice_record (save_notices e u ?batch ?w3)
         = notice_record ?w3 @ map (notice_row u (clock e (ticks ?w3))) (take k ?batch)"
      by blast
    then have a: "notice_record (notice_process e config u w)
         = notice_record w @ map (notice_row u (clock e (ticks ?w3))) (take k ?batch)"
      unfolding p by (simp add: send_def tc)
    have b: "map noticeId ?batch
                = filter (\<lambda>i. i \<notin> set (notice_ids w u)) (map se_id (stream_entries_of nd))
                  @ (if sentinel \<in> set (notice_ids w u) then [] else [sentinel])"
      using True by (simp add: collect_notices_frame(4) notice_init_record_def)
    from a b Inr show ?thesis by blast
  next
    case False
    let ?w3 = "notify_notices config (fst ?c) (snd ?c)"
    have p: "notice_process e config u w = save_notices e u (fst ?c) ?w3"
      unfolding notice_process_success [OF g] Let_def n1 using False by simp
    from save_notices_ext [of e u "fst ?c" ?w3]
    obtain k where "notice_record (save_notices e u (fst ?c) ?w3)
         = notice_record ?w3 @ map (notice_row u (clock e (ticks ?w3))) (take k (fst ?c))"
      by blast
    then have a: "notice_record (notice_process e config u w)
         = notice_record w @ map (notice_row u (clock e (ticks ?w3))) (take k (fst ?c))"
      unfolding p by (simp add: notify_notices_frame(1) tc)
    have b: "map noticeId (fst ?c)
                = filter (\<lambda>i. i \<notin> set (notice_ids w u)) (map se_id (stream_entries_of nd))
                  @ (if sentinel \<in> set (notice_ids w u) then [] else [sentinel])"
      using False by (simp add: collect_notices_frame(4))
    from a b Inr show ?thesis by blast
  qed
qed


lemma notice_process_other_table:
  "assignment_record (notice_process e config u w) = assignment_record w"
proof (cases "fst (getNoticeData e w)")
  case (Inl ex)
  then obtain w1 where g: "getNoticeData e w = (Inl ex, w1)"
    by (cases "getNoticeData e w") auto
  have "assignment_record w1 = assignment_record w"
    using getNoticeData_frame(3) [of e w] by (simp add: g)
  then show ?thesis by (simp add: notice_process_def g send_def)
next
  case (Inr nd)
  then obtain w1 where g: "getNoticeData e w = (Inr nd, w1)"
    by (cases "getNoticeData e w") auto
  have t1: "assignment_record w1 = assignment_record w"
    using getNoticeData_frame(3) [of e w] by (simp add: g)
  show ?thesis
    unfolding notice_process_success [OF g] Let_def
    by (simp add: save_notices_frame(3) notify_notices_frame(2) collect_notices_frame(3)
        send_def t1)
qed

lemma calendar_process_shape:
  "\<exists>batch k t.
     assignment_record (calendar_process e config u w)
       = assignment_record w @ map (assignment_row u t) (take k batch)
     \<and> (batch = [] \<or>
         (\<exists>es. fst (getCalendarData e (calendarAdvanceHours config) w) = Inr es
            \<and> map assignmentId batch
                = filter (\<lambda>i. i \<notin> set (assignment_ids w u)) (map entry_id es)
                  @ (if sentinel \<in> set (assignment_ids w u) then [] else [sentinel])))"
proof (cases "0 < calendarAdvanceHours config")
  case False
  then have "assignment_record (calendar_process e config u w) = assignment_record w"
    by (simp add: calendar_process_def send_def)
  then show ?thesis by (intro exI [of _ "[]"]) simp
next
  case pos: True
  let ?h = "calendarAdvanceHours config"
  show ?thesis
  proof (cases "fst (getCalendarData e ?h w)")
    case (Inl ex)
    then obtain w1 where g: "getCalendarData e ?h w = (Inl ex, w1)"
      by (cases "getCalendarData e ?h w") auto
    have "assignment_record w1 = assignment_record w"
      using getCalendarData_frame(3) [of e ?h w] by (simp add: g)
    then have "assignment_record (calendar_process e config u w) = assignment_record w"
      using pos by (simp add: calendar_process_def g send_def)
    then show ?thesis by (intro exI [of _ "[]"]) simp
  next
    case (Inr es)
    then obtain w1 where g: "getCalendarData e ?h w = (Inr es, w1)"
      by (cases "getCalendarData e ?h w") auto
    have t1: "assignment_record w1 = assignment_record w"
      using getCalendarData_frame(3) [of e ?h w] by (simp add: g)
    have n1: "assignment_ids w1 u = assignment_ids w u" by (rule assignment_ids_cong [OF t1])
    let ?c = "collect_assignments e (assignment_ids w u) es w1"
    have tc: "assignment_record (snd ?c) = assignment_record w"
      by (simp add: collect_assignments_frame(3) t1)
    show ?thesis
    proof (cases "sentinel \<notin> set (assignment_ids w u)")
      case True
      let ?w2 = "send CalendarInitialized (snd ?c)"
      let ?w3 = "?w2\<lparr>ticks := Suc (ticks ?w2)\<rparr>"
      let ?batch = "fst ?c @ [assignment_init_record (convertToTime (lib e) (clock e (ticks ?w2)))]"
      have p: "calendar_process e config u w = save_assignments e u ?batch ?w3"
        unfolding calendar_process_success [OF pos g] Let_def n1 using True by simp
      from save_assignments_ext [of e u ?batch ?w3]
      obtain k where "assignment_record (save_assignments e u ?batch ?w3)
           = assignment_record ?w3 @ map (assignment_row u (clock e (ticks ?w3))) (take k ?batch)"
        by blast
      then have a: "assignment_record (calendar_process e config u w)
           = assignment_record w @ map (assignment_row u (clock e (ticks ?w3))) (take k ?batch)"
        unfolding p by (simp add: send_def tc)
      have b: "map assignmentId ?batch
                  = filter (\<lambda>i. i \<notin> set (assignment_ids w u)) (map entry_id es)
                    @ (if sentinel \<in> set (assignment_ids w u) then [] else [sentinel])"
        using True by (simp add: collect_assignments_frame(4) assignment_init_record_def)
      from a b Inr show ?thesis by blast
    next
      case False
      let ?w3 = "notify_assignments config (fst ?c) (snd ?c)"
      have p: "calendar_process e config u w = save_assignments e u (fst ?c) ?w3"
        unfolding calendar_process_success [OF pos g] Let_def n1 using False by simp
      from save_assignments_ext [of e u "fst ?c" ?w3]
      obtain k where "assignment_record (save_assignments e u (fst ?c) ?w3)
           = assignment_record ?w3 @ map (assignment_row u (clock e (ticks ?w3))) (take k (fst ?c))"
        by blast
      then have a: "assignment_record (calendar_process e config u w)
           = assignment_record w @ map (assignment_row u (clock e (ticks ?w3))) (take k (fst ?c))"
        unfolding p by (simp add: notify_assignments_frame(2) tc)
      have b: "map assignmentId (fst ?c)
                  = filter (\<lambda>i. i \<notin> set (assignment_ids w u)) (map entry_id es)
                    @ (if sentinel \<in> set (assignment_ids w u) then [] else [sentinel])"
        using False by (simp add: collect_assignments_frame(4))
      from a b Inr show ?thesis by blast
    qed
  qed
qed

lemma calendar_process_other_table:
  "notice_record (calendar_process e config u w) = notice_record w"
proof (cases "0 < calendarAdvanceHours config")
  case False
  then show ?thesis by (simp add: calendar_process_def send_def)
next
  case pos: True
  let ?h = "calendarAdvanceHours config"
  show ?thesis
  proof (cases "fst (getCalendarData e ?h w)")
    case (Inl ex)
    then obtain w1 where g: "getCalendarData e ?h w = (Inl ex, w1)"
      by (cases "getCalendarData e ?h w") auto
    have "notice_record w1 = notice_record w"
      using getCalendarData_frame(2) [of e ?h w] by (simp add: g)
    then show ?thesis using pos by (simp add: calendar_process_def g send_def)
  next
    case (Inr es)
    then obtain w1 where g: "getCalendarData e ?h w = (Inr es, w1)"
      by (cases "getCalendarData e ?h w") auto
    have t1: "notice_record w1 = notice_record w"
      using getCalendarData_frame(2) [of e ?h w] by (simp add: g)
    show ?thesis
      unfolding calendar_process_success [OF pos g] Let_def
      by (simp add: save_assignments_frame(3) notify_assignments_frame(1)
          collect_assignments_frame(2) send_def t1)
  qed
qed

text \<open>The ids that a pass adds are distinct and new.\<close>

lemma new_ids_distinct:
  assumes "distinct feed" and "sentinel \<notin> set feed"
  shows "distinct (take k (filter (\<lambda>i. i \<notin> set old) feed
                            @ (if sentinel \<in> set old then [] else [sentinel])))"
    and "set (take k (filter (\<lambda>i. i \<notin> set old) feed
                        @ (if sentinel \<in> set old then [] else [sentinel]))) \<inter> set old = {}"
proof -
  let ?l = "filter (\<lambda>i. i \<notin> set old) feed @ (if sentinel \<in> set old then [] else [sentinel])"
  have d: "distinct ?l" using assms by auto
  have s: "set ?l \<inter> set old = {}" by auto
  show "distinct (take k ?l)" using d by (rule distinct_take)
  show "set (take k ?l) \<inter> set old = {}" using s set_take_subset [of k ?l] by blast
qed

lemma notice_process_distinct:
  assumes "distinct_feeds e" and "distinct (notice_ids w u')"
  shows "distinct (notice_ids (notice_process e config u w) u')"
proof -
  from notice_process_shape [of e config u w]
  obtain batch k t where a: "notice_record (notice_process e config u w)
       = notice_record w @ map (notice_row u t) (take k batch)"
    and b: "batch = [] \<or>
         (\<exists>nd. fst (getNoticeData e w) = Inr nd
            \<and> map noticeId batch
                = filter (\<lambda>i. i \<notin> set (notice_ids w u)) (map se_id (stream_entries_of nd))
                  @ (if sentinel \<in> set (notice_ids w u) then [] else [sentinel]))"
    by blast
  have i: "notice_ids (notice_process e config u w) u'
             = notice_ids w u' @ (if u' = u then take k (map noticeId batch) else [])"
    using notice_ids_append [OF a, of u'] by (simp add: take_map)
  show ?thesis
  proof (cases "u' = u \<and> batch \<noteq> []")
    case False
    then show ?thesis using assms(2) i by auto
  next
    case True
    with b obtain nd where nd: "fst (getNoticeData e w) = Inr nd"
      "map noticeId batch
         = filter (\<lambda>i. i \<notin> set (notice_ids w u)) (map se_id (stream_entries_of nd))
           @ (if sentinel \<in> set (notice_ids w u) then [] else [sentinel])" by blast
    note f = notice_feed_distinct [OF assms(1) nd(1)]
    from new_ids_distinct [OF f, of k "notice_ids w u"] assms(2) True
    show ?thesis unfolding i nd(2) by auto
  qed
qed

lemma calendar_process_distinct:
  assumes "distinct_feeds e" and "distinct (assignment_ids w u')"
  shows "distinct (assignment_ids (calendar_process e config u w) u')"
proof -
  from calendar_process_shape [of e config u w]
  obtain batch k t where a: "assignment_record (calendar_process e config u w)
       = assignment_record w @ map (assignment_row u t) (take k batch)"
    and b: "batch = [] \<or>
         (\<exists>es. fst (getCalendarData e (calendarAdvanceHours config) w) = Inr es
            \<and> map assignmentId batch
                = filter (\<lambda>i. i \<notin> set (assignment_ids w u)) (map entry_id es)
                  @ (if sentinel \<in> set (assignment_ids w u) then [] else [sentinel]))"
    by blast
  have i: "assignment_ids (calendar_process e config u w) u'
             = assignment_ids w u' @ (if u' = u then take k (map assignmentId batch) else [])"
    using assignment_ids_append [OF a, of u'] by (simp add: take_map)
  show ?thesis
  proof (cases "u' = u \<and> batch \<noteq> []")
    case False
    then show ?thesis using assms(2) i by auto
  next
    case True
    with b obtain es where es: "fst (getCalendarData e (calendarAdvanceHours config) w) = Inr es"
      "map assignmentId batch
         = filter (\<lambda>i. i \<notin> set (assignment_ids w u)) (map entry_id es)
           @ (if sentinel \<in> set (assignment_ids w u) then [] else [sentinel])" by blast
    note f = calendar_feed_distinct [OF assms(1) es(1)]
    from new_ids_distinct [OF f, of k "assignment_ids w u"] assms(2) True
    show ?thesis unfolding i es(2) by auto
  qed
qed

lemma notice_process_grows:
  "set (notice_ids w u') \<subseteq> set (notice_ids (notice_process e config u w) u')"
proof -
  from notice_process_shape [of e config u w]
  obtain batch k t where a: "notice_record (notice_process e config u w)
       = notice_record w @ map (notice_row u t) (take k batch)" by blast
  show ?thesis using notice_ids_append [OF a, of u'] by auto
qed

lemma calendar_process_grows:
  "set (assignment_ids w u') \<subseteq> set (assignment_ids (calendar_process e config u w) u')"
proof -
  from calendar_process_shape [of e config u w]
  obtain batch k t where a: "assignment_record (calendar_process e config u w)
       = assignment_record w @ map (assignment_row u t) (take k batch)" by blast
  show ?thesis using assignment_ids_append [OF a, of u'] by auto
qed

lemma run_pass_distinct:
  assumes "distinct_feeds (pass_env p)"
    and "\<forall>u. distinct (notice_ids w u) \<and> distinct (assignment_ids w u)"
  shows "\<forall>u. distinct (notice_ids (run_pass p w) u) \<and> distinct (assignment_ids (run_pass p w) u)"
proof (cases p)
  case (NoticePass e config v)
  have "\<And>u. assignment_ids (notice_process e config v w) u = assignment_ids w u"
    by (rule assignment_ids_cong [OF notice_process_other_table])
  then show ?thesis
    using assms notice_process_distinct [of e w _ config v] by (simp add: NoticePass)
next
  case (CalendarPass e config v)
  have "\<And>u. notice_ids (calendar_process e config v w) u = notice_ids w u"
    by (rule notice_ids_cong [OF calendar_process_other_table])
  then show ?thesis
    using assms calendar_process_distinct [of e w _ config v] by (simp add: CalendarPass)
qed

lemma run_pass_grows:
  "set (notice_ids w u) \<subseteq> set (notice_ids (run_pass p w) u)"
  "set (assignment_ids w u) \<subseteq> set (assignment_ids (run_pass p w) u)"
proof -
  show "set (notice_ids w u) \<subseteq> set (notice_ids (run_pass p w) u)"
  proof (cases p)
    case (NoticePass e config v)
    then show ?thesis using notice_process_grows [of w u e config v] by simp
  next
    case (CalendarPass e config v)
    have "notice_ids (calendar_process e config v w) u = notice_ids w u"
      by (rule notice_ids_cong [OF calendar_process_other_table])
    then show ?thesis by (simp add: CalendarPass)
  qed
  show "set (assignment_ids w u) \<subseteq> set (assignment_ids (run_pass p w) u)"
  proof (cases p)
    case (NoticePass e config v)
    have "assignment_ids (notice_process e config v w) u = assignment_ids w u"
      by (rule assignment_ids_cong [OF notice_process_other_table])
    then show ?thesis by (simp add: NoticePass)
  next
    case (CalendarPass e config v)
    then show ?thesis using calendar_process_grows [of w u e config v] by simp
  qed
qed

lemma run_passes_distinct:
  assumes "\<forall>p\<in>set ps. distinct_feeds (pass_env p)"
    and "\<forall>u. distinct (notice_ids w u) \<and> distinct (assignment_ids w u)"
  shows "\<forall>u. distinct (notice_ids (run_passes ps w) u)
             \<and> distinct (assignment_ids (run_passes ps w) u)"
  using assms
proof (induction ps arbitrary: w)
  case Nil
  then show ?case by (simp add: run_passes_def)
next
  case (Cons p ps)
  have "\<forall>u. distinct (notice_ids (run_pass p w) u) \<and> distinct (assignment_ids (run_pass p w) u)"
    using Cons.prems by (intro run_pass_distinct) simp_all
  with Cons.IH [of "run_pass p w"] Cons.prems(1)
  show ?case by (simp add: run_passes_def)
qed

lemma run_passes_grows:
  "set (notice_ids w u) \<subseteq> set (notice_ids (run_passes ps w) u)"
  "set (assignment_ids w u) \<subseteq> set (assignment_ids (run_passes ps w) u)"
proof -
  show "set (notice_ids w u) \<subseteq> set (notice_ids (run_passes ps w) u)"
  proof (induction ps arbitrary: w)
    case Nil
    then show ?case by (simp add: run_passes_def)
  next
    case (Cons p ps)
    from Cons [of "run_pass p w"] run_pass_grows(1) [of w u p]
    show ?case by (auto simp: run_passes_def)
  qed
  show "set (assignment_ids w u) \<subseteq> set (assignment_ids (run_passes ps w) u)"
  proof (induction ps arbitrary: w)
    case Nil
    then show ?case by (simp add: run_passes_def)
  next
    case (Cons p ps)
    from Cons [of "run_pass p w"] run_pass_grows(2) [of w u p]
    show ?case by (auto simp: run_passes_def)
  qed
qed

lemma run_passes_split: "run_passes ps w = run_passes (drop n ps) (run_passes (take n ps) w)"
proof -
  have "fold run_pass (take n ps @ drop n ps) w
          = fold run_pass (drop n ps) (fold run_pass (take n ps) w)"
    by (simp only: fold_append comp_apply)
  then show ?thesis by (simp add: run_passes_def)
qed

lemma feed_env_distinct:
  assumes "distinct ids" and "sentinel \<notin> set ids"
  shows "distinct_feeds (feed_env ids)"
proof -
  have j: "\<And>x. se_id (notice_entry_with_id x) = x"
    by (simp add: notice_entry_with_id_def)
  have i: "map (se_id \<circ> notice_entry_with_id) ids = ids"
    by (induction ids) (simp_all add: j)
  show ?thesis
    unfolding distinct_feeds_def feed_env_def
    using assms by (auto simp: i j split: request.splits)
qed

lemma calendar_env_distinct: "distinct_feeds calendar_env"
proof -
  have i: "entry_id entry_past = js ''_1_1''" "entry_id entry_49h = js ''_2_1''"
    "entry_id entry_47h59 = js ''_3_1''"
    by (simp_all add: entry_past_def entry_49h_def entry_47h59_def calendar_entry_at_def)
  show ?thesis
    unfolding distinct_feeds_def calendar_env_def
    by (auto simp: i js_def sentinel_def split: request.splits)
qed

text \<open>
  C5, as stated, fails on the code: an entry is compared with the ids that were in the
  ledger when the pass began, not with the entries seen earlier in the same response.
  When one response carries the id \<open>_1_1\<close> twice, both entries become records.
\<close>

theorem ledger_counterexample:
  "\<not> distinct (notice_ids
        (run_passes [NoticePass (feed_env [js ''_1_1'', js ''_1_1'']) default_config (js ''u1'')]
           empty_world) (js ''u1''))"
  by code_simp

text \<open>
  C5, amended. Starting from the empty ledger, after any sequence of sync passes (of
  either feed kind, for any users) in which no response of the server carries an id twice
  or an entry with the id of the sentinel, the ids of the records of every user are
  pairwise distinct, in both tables; and a sentinel that is in the ledger of a user after
  some of the passes is still there, once, after all of them.
\<close>

theorem ledger_ids_distinct:
  assumes "\<forall>p\<in>set ps. distinct_feeds (pass_env p)"
  shows "distinct (notice_ids (run_passes ps empty_world) u)
     \<and> distinct (assignment_ids (run_passes ps empty_world) u)
     \<and> (\<forall>n. sentinel \<in> set (notice_ids (run_passes (take n ps) empty_world) u)
            \<longrightarrow> sentinel \<in> set (notice_ids (run_passes ps empty_world) u))
     \<and> (\<forall>n. sentinel \<in> set (assignment_ids (run_passes (take n ps) empty_world) u)
            \<longrightarrow> sentinel \<in> set (assignment_ids (run_passes ps empty_world) u))"
proof -
  have e: "\<forall>u. distinct (notice_ids empty_world u) \<and> distinct (assignment_ids empty_world u)"
    by (simp add: empty_world_def notice_ids_def assignment_ids_def getNoticeRecords_def
        getAssignmentRecords_def)
  from run_passes_distinct [OF assms e]
  have d: "distinct (notice_ids (run_passes ps empty_world) u)"
    "distinct (assignment_ids (run_passes ps empty_world) u)" by simp_all
  have g1: "set (notice_ids (run_passes (take n ps) empty_world) u)
               \<subseteq> set (notice_ids (run_passes ps empty_world) u)" for n
    using run_passes_grows(1) [of "run_passes (take n ps) empty_world" u "drop n ps"]
      run_passes_split [of ps empty_world n] by simp
  have g2: "set (assignment_ids (run_passes (take n ps) empty_world) u)
               \<subseteq> set (assignment_ids (run_passes ps empty_world) u)" for n
    using run_passes_grows(2) [of "run_passes (take n ps) empty_world" u "drop n ps"]
      run_passes_split [of ps empty_world n] by simp
  from d g1 g2 show ?thesis by blast
qed

theorem ledger_ids_distinct_witness:
  "distinct (notice_ids
      (run_passes
         [NoticePass (feed_env [js ''_1_1'']) default_config (js ''u1''),
          CalendarPass calendar_env default_config (js ''u1''),
          NoticePass (feed_env [js ''_1_1'', js ''_2_1'']) default_config (js ''u1'')]
         empty_world) (js ''u1''))
   \<and> notice_ids
      (run_passes
         [NoticePass (feed_env [js ''_1_1'']) default_config (js ''u1''),
          CalendarPass calendar_env default_config (js ''u1''),
          NoticePass (feed_env [js ''_1_1'', js ''_2_1'']) default_config (js ''u1'')]
         empty_world) (js ''u1'') = [js ''_1_1'', sentinel, js ''_2_1'']
   \<and> sentinel \<in> set (notice_ids
      (run_passes
         (take 1 [NoticePass (feed_env [js ''_1_1'']) default_config (js ''u1''),
          CalendarPass calendar_env default_config (js ''u1''),
          NoticePass (feed_env [js ''_1_1'', js ''_2_1'']) default_config (js ''u1'')])
         empty_world) (js ''u1''))"
proof -
  let ?ps = "[NoticePass (feed_env [js ''_1_1'']) default_config (js ''u1''),
          CalendarPass calendar_env default_config (js ''u1''),
          NoticePass (feed_env [js ''_1_1'', js ''_2_1'']) default_config (js ''u1'')]"
  have a: "distinct_feeds (feed_env [js ''_1_1''])"
    by (rule feed_env_distinct) (simp_all add: js_def sentinel_def)
  have b: "distinct_feeds (feed_env [js ''_1_1'', js ''_2_1''])"
    by (rule feed_env_distinct) (simp_all add: js_def sentinel_def)
  have h: "\<forall>p\<in>set ?ps. distinct_feeds (pass_env p)"
    using a b calendar_env_distinct by simp
  have v: "notice_ids (run_passes ?ps empty_world) (js ''u1'') = [js ''_1_1'', sentinel, js ''_2_1'']"
    by code_simp
  have s: "sentinel \<in> set (notice_ids (run_passes (take 1 ?ps) empty_world) (js ''u1''))"
    by code_simp
  from ledger_ids_distinct [OF h, of "js ''u1''"] v s show ?thesis by blast
qed

end
